theory Spec2Isabelle
  imports Main "HOL-Library.AList" "HOL-Library.Word"
begin

section \<open>Python values\<close>

text \<open>
  The arguments of the client's methods, the entries of the dictionaries it builds and the
  parsed JSON bodies are Python objects. The model covers the built-in kinds: \<open>None\<close>,
  \<open>bool\<close>, \<open>int\<close> (unbounded), \<open>float\<close> (the 64 bits of the IEEE double),
  \<open>str\<close>, \<open>bytes\<close>, \<open>list\<close>, \<open>tuple\<close> and \<open>dict\<close> with \<open>str\<close> keys
  (an association list in insertion order).
\<close>

datatype pyval =
    PNone
  | PBool bool
  | PInt int
  | PFloat "64 word"
  | PStr string
  | PBytes "8 word list"
  | PList "pyval list"
  | PTuple "pyval list"
  | PDict "(string \<times> pyval) list"

type_synonym dict = "(string \<times> pyval) list"

text \<open>
  Python's truth test, as used by \<open>if x:\<close> and by \<open>and\<close>: \<open>None\<close>, \<open>False\<close>,
  zero (for a float both \<open>0.0\<close> and \<open>-0.0\<close>) and the empty containers are falsy.
\<close>

fun truthy :: "pyval \<Rightarrow> bool" where
  "truthy PNone = False"
| "truthy (PBool b) = b"
| "truthy (PInt i) = (i \<noteq> 0)"
| "truthy (PFloat f) = (f \<noteq> 0 \<and> f \<noteq> 0x8000000000000000)"
| "truthy (PStr s) = (s \<noteq> [])"
| "truthy (PBytes b) = (b \<noteq> [])"
| "truthy (PList xs) = (xs \<noteq> [])"
| "truthy (PTuple xs) = (xs \<noteq> [])"
| "truthy (PDict d) = (d \<noteq> [])"

text \<open>\<open>a and b\<close> yields \<open>a\<close> itself when \<open>a\<close> is falsy, and \<open>b\<close> otherwise.\<close>

definition py_and :: "pyval \<Rightarrow> pyval \<Rightarrow> pyval" where
  "py_and a b = (if truthy a then b else a)"

text \<open>
  The statement \<open>if c: d.update(k=v)\<close> as a function of the dictionary \<open>d\<close>.
  \<open>AList.update\<close> replaces the value of a key that is present, in place, and appends a
  new key at the end, as a Python \<open>dict\<close> does.
\<close>

definition if_update :: "bool \<Rightarrow> string \<Rightarrow> pyval \<Rightarrow> dict \<Rightarrow> dict" where
  "if_update c k v d = (if c then AList.update k v d else d)"

text \<open>\<open>str(n)\<close> for an \<open>int\<close>, as an f-string formats it: decimal, with a minus sign.\<close>

definition digit_char :: "nat \<Rightarrow> char" where
  "digit_char d = ''0123456789'' ! d"

function str_nat :: "nat \<Rightarrow> string" where
  "str_nat n = (if n < 10 then [digit_char n] else str_nat (n div 10) @ [digit_char (n mod 10)])"
  by pat_completeness auto
termination
  by (relation "measure (\<lambda>n. n)") auto

definition str_int :: "int \<Rightarrow> string" where
  "str_int i = (if i < 0 then CHR ''-'' # str_nat (nat (- i)) else str_nat (nat i))"

section \<open>The HTTP session\<close>

text \<open>
  The client talks to the service through a \<open>requests.Session\<close>. A call
  \<open>session.get(url, params=...)\<close> or \<open>session.post(url, headers=..., json=...)\<close> is
  recorded as a \<open>request\<close>: the method, the URL, the keyword arguments that were passed
  (\<open>None\<close> for one that was not), and what the session adds of its own: its default
  headers and the cookies in its jar.

  The session is library code, outside the repository; the model follows
  \<open>requests/sessions.py\<close>. \<open>Session.prepare_request\<close> merges \<open>self.cookies\<close> into
  every request, and \<open>Session.send\<close> stores the cookies of every response, of any status,
  into \<open>self.cookies\<close> (\<open>extract_cookies_to_jar\<close>). A cookie is a name and a value. The
  \<open>set_cookies\<close> of a response are the cookies of its \<open>Set-Cookie\<close> headers that the
  jar accepts for the host of the API with a path that covers every URL of the API; a
  cookie for a narrower path, which would go out with some later requests only, is not
  modelled.
\<close>

type_synonym cookies = "(string \<times> string) list"

datatype verb = GET | POST

record request =
  rverb :: verb
  rurl :: string
  rparams :: "dict option"
  rjson :: "pyval option"
  rheaders :: "dict option"
  rsession_headers :: dict
  rcookies :: cookies

record response =
  status_code :: int
  content :: "8 word list"
  set_cookies :: cookies

record session =
  headers :: dict
  cookies :: cookies

datatype error =
    HTTPError response
  | JSONDecodeError
  | KeyError string
  | TypeError

text \<open>
  The world outside the client: the service, which answers a request knowing the requests
  it has seen before; the JSON decoder behind \<open>response.json()\<close>, which gives no value for
  a body that is not JSON; and the requests sent so far, oldest first.
\<close>

record world =
  server :: "request list \<Rightarrow> request \<Rightarrow> response"
  json_loads :: "8 word list \<Rightarrow> pyval option"
  sent :: "request list"

text \<open>
  Storing the cookies of a response: a cookie replaces the one of the same name and a new
  one is added.
\<close>

fun extract_cookies_to_jar :: "cookies \<Rightarrow> cookies \<Rightarrow> cookies" where
  "extract_cookies_to_jar jar [] = jar"
| "extract_cookies_to_jar jar ((n, v) # cs) = extract_cookies_to_jar (AList.update n v jar) cs"

text \<open>
  One request through the session: the response, the session with the cookies of the
  response in its jar, and the world with the request in its log.
\<close>

definition session_request ::
  "session \<Rightarrow> verb \<Rightarrow> string \<Rightarrow> dict option \<Rightarrow> pyval option \<Rightarrow> dict option \<Rightarrow> world
     \<Rightarrow> response \<times> session \<times> world" where
  "session_request s m u ps js hs w =
     (let req = \<lparr>rverb = m, rurl = u, rparams = ps, rjson = js, rheaders = hs,
                 rsession_headers = headers s, rcookies = cookies s\<rparr>;
          r = server w (sent w) req
      in (r, s\<lparr>cookies := extract_cookies_to_jar (cookies s) (set_cookies r)\<rparr>,
          w\<lparr>sent := sent w @ [req]\<rparr>))"

text \<open>
  Modelled from the spec: \<open>Response.raise_for_status\<close> belongs to the \<open>requests\<close>
  library, not to the repository. The spec says the HTTP failure is raised whenever the
  response status indicates failure (4xx/5xx), and that the error carries the response.
\<close>

definition raise_for_status :: "response \<Rightarrow> error + unit" where
  "raise_for_status r =
     (if 400 \<le> status_code r \<and> status_code r < 600 then Inl (HTTPError r) else Inr ())"

definition response_json :: "response \<Rightarrow> world \<Rightarrow> error + pyval" where
  "response_json r w =
     (case json_loads w (content r) of None \<Rightarrow> Inl JSONDecodeError | Some v \<Rightarrow> Inr v)"

text \<open>
  \<open>data[k]\<close> with a \<open>str\<close> key: a lookup in a \<open>dict\<close>, a \<open>KeyError\<close> when the key is
  missing, and a \<open>TypeError\<close> on every other kind of value.
\<close>

definition subscript :: "pyval \<Rightarrow> string \<Rightarrow> error + pyval" where
  "subscript v k =
     (case v of
        PDict d \<Rightarrow> (case map_of d k of None \<Rightarrow> Inl (KeyError k) | Some x \<Rightarrow> Inr x)
      | _ \<Rightarrow> Inl TypeError)"

text \<open>
  \<open>session.headers\<close> is a case-insensitive dictionary: \<open>update\<close> replaces an entry whose
  key differs only in case, and stores the key as it is written in the update.
\<close>

definition lower_char :: "char \<Rightarrow> char" where
  "lower_char c =
     (case map_of (zip ''ABCDEFGHIJKLMNOPQRSTUVWXYZ'' ''abcdefghijklmnopqrstuvwxyz'') c of
        Some l \<Rightarrow> l
      | None \<Rightarrow> c)"

fun ci_update :: "string \<Rightarrow> pyval \<Rightarrow> dict \<Rightarrow> dict" where
  "ci_update k v [] = [(k, v)]"
| "ci_update k v (p # ps) =
     (if map lower_char (fst p) = map lower_char k then (k, v) # ps else p # ci_update k v ps)"

fun headers_update :: "dict \<Rightarrow> session \<Rightarrow> session" where
  "headers_update [] s = s"
| "headers_update ((k, v) # kvs) s = headers_update kvs (s\<lparr>headers := ci_update k v (headers s)\<rparr>)"

section \<open>The client\<close>

record OrderfulAPI =
  stream :: pyval
  orderful_api_key :: pyval
  api_headers :: dict
  client :: session

text \<open>
  \<open>__init__\<close>. The first argument is the object that \<open>requests.Session()\<close> returns,
  with the library's own default headers and its cookie jar.
\<close>

definition init :: "session \<Rightarrow> pyval \<Rightarrow> pyval \<Rightarrow> OrderfulAPI" where
  "init new_session stream_arg key_arg =
     (let hdrs = [(''accept'', PStr ''application/json''),
                  (''content-type'', PStr ''application/json''),
                  (''orderful-api-key'', key_arg)]
      in \<lparr>stream = stream_arg, orderful_api_key = key_arg, api_headers = hdrs,
          client = headers_update hdrs new_session\<rparr>)"

definition get_base_url :: "OrderfulAPI \<Rightarrow> string" where
  "get_base_url self = ''https://api.orderful.com/v3''"

definition is_enabled :: "OrderfulAPI \<Rightarrow> pyval" where
  "is_enabled self = py_and (stream self) (orderful_api_key self)"

text \<open>
  \<open>self.stream == "LIVE"\<close>: among the built-in values only the \<open>str\<close> with the same
  characters is equal to a \<open>str\<close>.
\<close>

definition is_live_stream :: "OrderfulAPI \<Rightarrow> bool" where
  "is_live_stream self = (stream self = PStr ''LIVE'')"

section \<open>The operations\<close>

text \<open>
  A method takes the client and the world and gives back what it returns or raises, the
  client and the world after the call. The session behind \<open>self.client\<close> is an object
  that a request changes in place; in the model the request hands back the session and
  the client holds it from then on (\<open>self\<lparr>client := s\<rparr>\<close>). A method that ends without
  \<open>return\<close> returns \<open>None\<close>. Identifiers that are formatted into the URL have the type their docstring
  gives them: the bucket id is an \<open>int\<close>, the others are \<open>str\<close>. An optional
  argument that the caller leaves out has its default, \<open>False\<close>.
\<close>

type_synonym outcome = "(error + pyval) \<times> OrderfulAPI \<times> world"

definition get_transactions_from_poller_bucket ::
  "OrderfulAPI \<Rightarrow> int \<Rightarrow> pyval \<Rightarrow> world \<Rightarrow> outcome" where
  "get_transactions_from_poller_bucket self bucket_id limit w =
     (let baseurl = get_base_url self;
          url = baseurl @ ''/polling-buckets/'' @ str_int bucket_id;
          params = [];
          params = if_update (truthy limit) ''limit'' limit params;
          (response, s, w) = session_request (client self) GET url (Some params) None None w;
          self = self\<lparr>client := s\<rparr>
      in case raise_for_status response of
           Inl e \<Rightarrow> (Inl e, self, w)
         | Inr _ \<Rightarrow> (response_json response w, self, w))"

definition list_relationships ::
  "OrderfulAPI \<Rightarrow> int \<Rightarrow> pyval \<Rightarrow> pyval \<Rightarrow> pyval \<Rightarrow> pyval \<Rightarrow> world \<Rightarrow> outcome" where
  "list_relationships self bucket_id auto_send limit prev_cursor next_cursor w =
     (let baseurl = get_base_url self;
          url = baseurl @ ''/relationships/'' @ str_int bucket_id;
          params = [];
          params = if_update (truthy auto_send) ''auto_send'' auto_send params;
          params = if_update (truthy limit) ''limit'' limit params;
          params = if_update (truthy prev_cursor) ''prev_cursor'' prev_cursor params;
          params = if_update (truthy next_cursor) ''next_cursor'' next_cursor params;
          (response, s, w) = session_request (client self) GET url (Some params) None None w;
          self = self\<lparr>client := s\<rparr>
      in case raise_for_status response of
           Inl e \<Rightarrow> (Inl e, self, w)
         | Inr _ \<Rightarrow> (response_json response w, self, w))"

definition get_organization_details :: "OrderfulAPI \<Rightarrow> world \<Rightarrow> outcome" where
  "get_organization_details self w =
     (let baseurl = get_base_url self;
          url = baseurl @ ''/organizations/me'';
          (response, s, w) = session_request (client self) GET url None None None w;
          self = self\<lparr>client := s\<rparr>
      in case raise_for_status response of
           Inl e \<Rightarrow> (Inl e, self, w)
         | Inr _ \<Rightarrow> (response_json response w, self, w))"

definition convert_data :: "OrderfulAPI \<Rightarrow> pyval \<Rightarrow> pyval \<Rightarrow> world \<Rightarrow> outcome" where
  "convert_data self origin_content destination_content w =
     (let baseurl = get_base_url self;
          url = baseurl @ ''/convert'';
          hdrs = [(''Content-Type'', origin_content), (''Accept'', destination_content)];
          (response, s, w) = session_request (client self) POST url None None (Some hdrs) w;
          self = self\<lparr>client := s\<rparr>
      in case raise_for_status response of
           Inl e \<Rightarrow> (Inl e, self, w)
         | Inr _ \<Rightarrow> (response_json response w, self, w))"

definition create_transaction ::
  "OrderfulAPI \<Rightarrow> pyval \<Rightarrow> pyval \<Rightarrow> pyval \<Rightarrow> pyval \<Rightarrow> world \<Rightarrow> outcome" where
  "create_transaction self orderful_type message sender_isa_id receiver_isa_id w =
     (let baseurl = get_base_url self;
          url = baseurl @ ''/transactions'';
          payload = [(''type'', PDict [(''name'', orderful_type)]),
                     (''stream'', stream self),
                     (''message'', message),
                     (''sender'', PDict [(''isaId'', sender_isa_id)]),
                     (''receiver'', PDict [(''isaId'', receiver_isa_id)])];
          (response, s, w) = session_request (client self) POST url None (Some (PDict payload)) None w;
          self = self\<lparr>client := s\<rparr>
      in case raise_for_status response of
           Inl e \<Rightarrow> (Inl e, self, w)
         | Inr _ \<Rightarrow>
             (case response_json response w of
                Inl e \<Rightarrow> (Inl e, self, w)
              | Inr data \<Rightarrow> (subscript data ''id'', self, w)))"

definition list_transactions ::
  "OrderfulAPI \<Rightarrow> pyval \<Rightarrow> pyval \<Rightarrow> pyval \<Rightarrow> pyval \<Rightarrow> pyval \<Rightarrow> pyval \<Rightarrow> pyval \<Rightarrow> pyval \<Rightarrow> pyval \<Rightarrow> pyval \<Rightarrow> pyval \<Rightarrow> pyval \<Rightarrow> pyval \<Rightarrow> pyval \<Rightarrow> pyval \<Rightarrow> pyval \<Rightarrow> pyval \<Rightarrow> world \<Rightarrow> outcome" where
  "list_transactions self prev_cursor next_cursor created_at business_numbers transaction_type validation_status delivery_status acknowledgment_status sender_isa_id receiver_isa_id reference_identifier sender_interchange_reference_identifier sender_group_reference_identifier sender_transaction_reference_identifier receiver_interchange_reference_identifier receiver_group_reference_identifier receiver_transaction_reference_identifier w =
     (let params = [];
          params = if_update (truthy prev_cursor) ''prevCursor'' prev_cursor params;
          params = if_update (truthy next_cursor) ''nextCursor'' next_cursor params;
          params = if_update (truthy created_at) ''createdAt'' created_at params;
          params = if_update (truthy business_numbers) ''businessNumbers'' business_numbers params;
          params = if_update (truthy transaction_type) ''transactionType'' transaction_type params;
          params = if_update (truthy validation_status) ''validationStatus'' validation_status params;
          params = if_update (truthy delivery_status) ''deliveryStatus'' delivery_status params;
          params = if_update (truthy acknowledgment_status) ''acknowledgmentStatus'' acknowledgment_status params;
          params = if_update (truthy sender_isa_id) ''senderIsaId'' sender_isa_id params;
          params = if_update (truthy receiver_isa_id) ''receiverIsaId'' receiver_isa_id params;
          params = if_update (truthy reference_identifier) ''referenceIdentifier'' reference_identifier params;
          params = if_update (truthy sender_interchange_reference_identifier) ''senderInterchangeReferenceIdentifier'' sender_interchange_reference_identifier params;
          params = if_update (truthy sender_group_reference_identifier) ''senderGroupReferenceIdentifier'' sender_group_reference_identifier params;
          params = if_update (truthy sender_transaction_reference_identifier) ''senderTransactionReferenceIdentifier'' sender_transaction_reference_identifier params;
          params = if_update (truthy receiver_interchange_reference_identifier) ''receiverInterchangeReferenceIdentifier'' receiver_interchange_reference_identifier params;
          params = if_update (truthy receiver_group_reference_identifier) ''receiverGroupReferenceIdentifier'' receiver_group_reference_identifier params;
          params = if_update (truthy receiver_transaction_reference_identifier) ''receiverTransactionReferenceIdentifier'' receiver_transaction_reference_identifier params;
          baseurl = get_base_url self;
          url = baseurl @ ''/transactions'';
          (response, s, w) = session_request (client self) GET url (Some params) None None w;
          self = self\<lparr>client := s\<rparr>
      in case raise_for_status response of
           Inl e \<Rightarrow> (Inl e, self, w)
         | Inr _ \<Rightarrow>
             (case response_json response w of
                Inl e \<Rightarrow> (Inl e, self, w)
              | Inr data \<Rightarrow>
                  (case subscript data ''metadata'' of
                     Inl e \<Rightarrow> (Inl e, self, w)
                   | Inr metadata \<Rightarrow>
                       (case subscript data ''data'' of
                          Inl e \<Rightarrow> (Inl e, self, w)
                        | Inr transactions \<Rightarrow> (Inr (PTuple [metadata, transactions]), self, w)))))"

definition get_transaction :: "OrderfulAPI \<Rightarrow> string \<Rightarrow> pyval \<Rightarrow> world \<Rightarrow> outcome" where
  "get_transaction self transaction_id include_message w =
     (let baseurl = get_base_url self;
          url = baseurl @ ''/transactions/'' @ transaction_id;
          params = [];
          params = if_update (truthy include_message) ''expand'' (PStr ''message'') params;
          (response, s, w) = session_request (client self) GET url (Some params) None None w;
          self = self\<lparr>client := s\<rparr>
      in case raise_for_status response of
           Inl e \<Rightarrow> (Inl e, self, w)
         | Inr _ \<Rightarrow> (response_json response w, self, w))"

definition get_transaction_message :: "OrderfulAPI \<Rightarrow> string \<Rightarrow> world \<Rightarrow> outcome" where
  "get_transaction_message self transaction_id w =
     (let baseurl = get_base_url self;
          url = baseurl @ ''/transactions/'' @ transaction_id @ ''/message'';
          (response, s, w) = session_request (client self) GET url None None None w;
          self = self\<lparr>client := s\<rparr>
      in case raise_for_status response of
           Inl e \<Rightarrow> (Inl e, self, w)
         | Inr _ \<Rightarrow> (response_json response w, self, w))"

definition create_acknowledgment ::
  "OrderfulAPI \<Rightarrow> string \<Rightarrow> pyval \<Rightarrow> pyval \<Rightarrow> world \<Rightarrow> outcome" where
  "create_acknowledgment self transaction_id status errors w =
     (let baseurl = get_base_url self;
          url = baseurl @ ''/transactions/'' @ transaction_id @ ''/acknowledgments'';
          payload = [(''status'', status)];
          payload = if_update (truthy errors) ''errors'' errors payload;
          (response, s, w) = session_request (client self) POST url None (Some (PDict payload)) None w;
          self = self\<lparr>client := s\<rparr>
      in case raise_for_status response of
           Inl e \<Rightarrow> (Inl e, self, w)
         | Inr _ \<Rightarrow> (Inr PNone, self, w))"

definition get_acknowledgment :: "OrderfulAPI \<Rightarrow> string \<Rightarrow> world \<Rightarrow> outcome" where
  "get_acknowledgment self transaction_id w =
     (let baseurl = get_base_url self;
          url = baseurl @ ''/transactions/'' @ transaction_id @ ''/acknowledgment'';
          (response, s, w) = session_request (client self) GET url None None None w;
          self = self\<lparr>client := s\<rparr>
      in case raise_for_status response of
           Inl e \<Rightarrow> (Inl e, self, w)
         | Inr _ \<Rightarrow> (response_json response w, self, w))"

definition get_attachment :: "OrderfulAPI \<Rightarrow> string \<Rightarrow> world \<Rightarrow> outcome" where
  "get_attachment self attachment_id w =
     (let baseurl = get_base_url self;
          url = baseurl @ ''/attachments/'' @ attachment_id;
          (response, s, w) = session_request (client self) GET url None None None w;
          self = self\<lparr>client := s\<rparr>
      in case raise_for_status response of
           Inl e \<Rightarrow> (Inl e, self, w)
         | Inr _ \<Rightarrow> (response_json response w, self, w))"

definition get_attachment_content :: "OrderfulAPI \<Rightarrow> string \<Rightarrow> world \<Rightarrow> outcome" where
  "get_attachment_content self attachment_id w =
     (let baseurl = get_base_url self;
          url = baseurl @ ''/attachments/'' @ attachment_id @ ''/content'';
          (response, s, w) = session_request (client self) GET url None None None w;
          self = self\<lparr>client := s\<rparr>
      in case raise_for_status response of
           Inl e \<Rightarrow> (Inl e, self, w)
         | Inr _ \<Rightarrow> (Inr (PBytes (content response)), self, w))"

definition approve_delivery :: "OrderfulAPI \<Rightarrow> string \<Rightarrow> pyval \<Rightarrow> world \<Rightarrow> outcome" where
  "approve_delivery self delivery_id note w =
     (let baseurl = get_base_url self;
          url = baseurl @ ''/deliveries/'' @ delivery_id @ ''/approve'';
          payload = [];
          payload = if_update (truthy note) ''note'' note payload;
          (response, s, w) = session_request (client self) POST url None (Some (PDict payload)) None w;
          self = self\<lparr>client := s\<rparr>
      in case raise_for_status response of
           Inl e \<Rightarrow> (Inl e, self, w)
         | Inr _ \<Rightarrow> (Inr PNone, self, w))"

definition fail_delivery :: "OrderfulAPI \<Rightarrow> string \<Rightarrow> pyval \<Rightarrow> world \<Rightarrow> outcome" where
  "fail_delivery self delivery_id note w =
     (let baseurl = get_base_url self;
          url = baseurl @ ''/deliveries/'' @ delivery_id @ ''/fail'';
          payload = [];
          payload = if_update (truthy note) ''note'' note payload;
          (response, s, w) = session_request (client self) POST url None (Some (PDict payload)) None w;
          self = self\<lparr>client := s\<rparr>
      in case raise_for_status response of
           Inl e \<Rightarrow> (Inl e, self, w)
         | Inr _ \<Rightarrow> (Inr PNone, self, w))"

definition get_delivery :: "OrderfulAPI \<Rightarrow> string \<Rightarrow> world \<Rightarrow> outcome" where
  "get_delivery self delivery_id w =
     (let baseurl = get_base_url self;
          url = baseurl @ ''/deliveries/'' @ delivery_id;
          (response, s, w) = session_request (client self) GET url None None None w;
          self = self\<lparr>client := s\<rparr>
      in case raise_for_status response of
           Inl e \<Rightarrow> (Inl e, self, w)
         | Inr _ \<Rightarrow> (response_json response w, self, w))"

definition generate_label :: "OrderfulAPI \<Rightarrow> string \<Rightarrow> dict \<Rightarrow> world \<Rightarrow> outcome" where
  "generate_label self label_type kwargs w =
     (let baseurl = get_base_url self;
          url = baseurl @ ''/labels/'' @ label_type;
          (response, s, w) = session_request (client self) POST url None (Some (PDict kwargs)) None w;
          self = self\<lparr>client := s\<rparr>
      in case raise_for_status response of
           Inl e \<Rightarrow> (Inl e, self, w)
         | Inr _ \<Rightarrow> (response_json response w, self, w))"

text \<open>
  The sixteen methods that issue a request, as one datatype, for statements about every
  operation; \<open>perform\<close> calls the method that a constructor names.
\<close>

datatype call =
    Get_transactions_from_poller_bucket int pyval
  | List_relationships int pyval pyval pyval pyval
  | Get_organization_details
  | Convert_data pyval pyval
  | Create_transaction pyval pyval pyval pyval
  | List_transactions pyval pyval pyval pyval pyval pyval pyval pyval pyval pyval pyval pyval pyval pyval pyval pyval pyval
  | Get_transaction string pyval
  | Get_transaction_message string
  | Create_acknowledgment string pyval pyval
  | Get_acknowledgment string
  | Get_attachment string
  | Get_attachment_content string
  | Approve_delivery string pyval
  | Fail_delivery string pyval
  | Get_delivery string
  | Generate_label string dict

fun perform :: "OrderfulAPI \<Rightarrow> call \<Rightarrow> world \<Rightarrow> outcome" where
  "perform self (Get_transactions_from_poller_bucket b l) w =
     get_transactions_from_poller_bucket self b l w"
| "perform self (List_relationships b a l p n) w = list_relationships self b a l p n w"
| "perform self Get_organization_details w = get_organization_details self w"
| "perform self (Convert_data a b) w = convert_data self a b w"
| "perform self (Create_transaction t m s r) w = create_transaction self t m s r w"
| "perform self (List_transactions a1 a2 a3 a4 a5 a6 a7 a8 a9 a10 a11 a12 a13 a14 a15 a16 a17) w =
     list_transactions self a1 a2 a3 a4 a5 a6 a7 a8 a9 a10 a11 a12 a13 a14 a15 a16 a17 w"
| "perform self (Get_transaction t m) w = get_transaction self t m w"
| "perform self (Get_transaction_message t) w = get_transaction_message self t w"
| "perform self (Create_acknowledgment t s e) w = create_acknowledgment self t s e w"
| "perform self (Get_acknowledgment t) w = get_acknowledgment self t w"
| "perform self (Get_attachment a) w = get_attachment self a w"
| "perform self (Get_attachment_content a) w = get_attachment_content self a w"
| "perform self (Approve_delivery d n) w = approve_delivery self d n w"
| "perform self (Fail_delivery d n) w = fail_delivery self d n w"
| "perform self (Get_delivery d) w = get_delivery self d w"
| "perform self (Generate_label t k) w = generate_label self t k w"

text \<open>
  A caller that runs one operation after another on the same client, whether a call
  returns or raises, and ends with the client and the world as the last call leaves them.
\<close>

fun perform_all :: "OrderfulAPI \<Rightarrow> call list \<Rightarrow> world \<Rightarrow> OrderfulAPI \<times> world" where
  "perform_all self [] w = (self, w)"
| "perform_all self (c # cs) w =
     (case perform self c w of (result, self', w') \<Rightarrow> perform_all self' cs w')"

text \<open>The request that a call has just sent, and the entries it carries.\<close>

definition outgoing :: "outcome \<Rightarrow> request" where
  "outgoing out = last (sent (snd (snd out)))"

definition query_param :: "string \<Rightarrow> request \<Rightarrow> pyval option" where
  "query_param k r = (case rparams r of None \<Rightarrow> None | Some ps \<Rightarrow> map_of ps k)"

definition body_key :: "string \<Rightarrow> request \<Rightarrow> pyval option" where
  "body_key k r = (case rjson r of Some (PDict d) \<Rightarrow> map_of d k | _ \<Rightarrow> None)"

section \<open>Example values\<close>

text \<open>
  A client, three response bodies and a world whose service answers every request with
  the same status and body and sets no cookie; and a world whose service sets one. The decoder of the example world knows the three bodies:
  \<^verbatim>\<open>{"id":"tx_123"}\<close>, \<^verbatim>\<open>{"metadata":{},"data":[]}\<close> and \<^verbatim>\<open>{}\<close>.
\<close>

definition demo_client :: OrderfulAPI where
  "demo_client = init \<lparr>headers = [], cookies = []\<rparr> (PStr ''TEST'') (PStr ''secret'')"

definition body_tx :: "8 word list" where
  "body_tx = [0x7B, 0x22, 0x69, 0x64, 0x22, 0x3A, 0x22, 0x74, 0x78, 0x5F, 0x31, 0x32, 0x33, 0x22, 0x7D]"

definition body_page :: "8 word list" where
  "body_page = [0x7B, 0x22, 0x6D, 0x65, 0x74, 0x61, 0x64, 0x61, 0x74, 0x61, 0x22, 0x3A, 0x7B, 0x7D, 0x2C,
                0x22, 0x64, 0x61, 0x74, 0x61, 0x22, 0x3A, 0x5B, 0x5D, 0x7D]"

definition body_empty :: "8 word list" where
  "body_empty = [0x7B, 0x7D]"

definition demo_loads :: "8 word list \<Rightarrow> pyval option" where
  "demo_loads b =
     (if b = body_tx then Some (PDict [(''id'', PStr ''tx_123'')])
      else if b = body_page then Some (PDict [(''metadata'', PDict []), (''data'', PList [])])
      else if b = body_empty then Some (PDict [])
      else None)"

definition demo_world :: "int \<Rightarrow> 8 word list \<Rightarrow> world" where
  "demo_world code body =
     \<lparr>server = (\<lambda>history r. \<lparr>status_code = code, content = body, set_cookies = []\<rparr>),
      json_loads = demo_loads, sent = []\<rparr>"

definition cookie_world :: world where
  "cookie_world =
     \<lparr>server = (\<lambda>history r.
        \<lparr>status_code = 200, content = body_empty, set_cookies = [(''session'', ''abc123'')]\<rparr>),
      json_loads = demo_loads, sent = []\<rparr>"

section \<open>The request of each operation\<close>

lemma map_of_if_update:
  "map_of (if_update c k v d) k' = (if c \<and> k' = k then Some v else map_of d k')"
  by (simp add: if_update_def update_conv')

lemma session_request_eq:
  "session_request s m u ps js hs w =
     (server w (sent w)
        \<lparr>rverb = m, rurl = u, rparams = ps, rjson = js, rheaders = hs, rsession_headers = headers s,
         rcookies = cookies s\<rparr>,
      s\<lparr>cookies := extract_cookies_to_jar (cookies s) (set_cookies (server w (sent w)
        \<lparr>rverb = m, rurl = u, rparams = ps, rjson = js, rheaders = hs, rsession_headers = headers s,
         rcookies = cookies s\<rparr>))\<rparr>,
      w\<lparr>sent := sent w @
        [\<lparr>rverb = m, rurl = u, rparams = ps, rjson = js, rheaders = hs, rsession_headers = headers s,
          rcookies = cookies s\<rparr>]\<rparr>)"
  by (simp add: session_request_def Let_def)

lemma get_transactions_from_poller_bucket_outgoing:
  "outgoing (get_transactions_from_poller_bucket self bucket_id limit w) =
     \<lparr>rverb = GET, rurl = ''https://api.orderful.com/v3/polling-buckets/'' @ str_int bucket_id,
       rparams = Some (if_update (truthy limit) ''limit'' (limit) []),
       rjson = None,
       rheaders = None, rsession_headers = headers (client self),
       rcookies = cookies (client self)\<rparr>"
  by (simp add: get_transactions_from_poller_bucket_def get_base_url_def outgoing_def session_request_eq Let_def split: sum.splits)

lemma get_transactions_from_poller_bucket_state:
  "snd (get_transactions_from_poller_bucket self bucket_id limit w) =
     (self\<lparr>client := (client self)\<lparr>cookies :=
        extract_cookies_to_jar (cookies (client self)) (set_cookies (server w (sent w) (outgoing (get_transactions_from_poller_bucket self bucket_id limit w))))\<rparr>\<rparr>,
      w\<lparr>sent := sent w @ [outgoing (get_transactions_from_poller_bucket self bucket_id limit w)]\<rparr>)"
  unfolding get_transactions_from_poller_bucket_outgoing
  by (simp add: get_transactions_from_poller_bucket_def get_base_url_def session_request_eq Let_def split: sum.splits)

lemma get_transactions_from_poller_bucket_failure:
  "400 \<le> status_code (server w (sent w) (outgoing (get_transactions_from_poller_bucket self bucket_id limit w))) \<Longrightarrow>
   status_code (server w (sent w) (outgoing (get_transactions_from_poller_bucket self bucket_id limit w))) < 600 \<Longrightarrow>
   fst (get_transactions_from_poller_bucket self bucket_id limit w) = Inl (HTTPError (server w (sent w) (outgoing (get_transactions_from_poller_bucket self bucket_id limit w))))"
  unfolding get_transactions_from_poller_bucket_outgoing
  by (simp add: get_transactions_from_poller_bucket_def get_base_url_def session_request_eq Let_def raise_for_status_def)

lemma list_relationships_outgoing:
  "outgoing (list_relationships self bucket_id auto_send limit prev_cursor next_cursor w) =
     \<lparr>rverb = GET, rurl = ''https://api.orderful.com/v3/relationships/'' @ str_int bucket_id,
       rparams = Some (if_update (truthy next_cursor) ''next_cursor'' (next_cursor) (if_update (truthy prev_cursor) ''prev_cursor'' (prev_cursor) (if_update (truthy limit) ''limit'' (limit) (if_update (truthy auto_send) ''auto_send'' (auto_send) [])))),
       rjson = None,
       rheaders = None, rsession_headers = headers (client self),
       rcookies = cookies (client self)\<rparr>"
  by (simp add: list_relationships_def get_base_url_def outgoing_def session_request_eq Let_def split: sum.splits)

lemma list_relationships_state:
  "snd (list_relationships self bucket_id auto_send limit prev_cursor next_cursor w) =
     (self\<lparr>client := (client self)\<lparr>cookies :=
        extract_cookies_to_jar (cookies (client self)) (set_cookies (server w (sent w) (outgoing (list_relationships self bucket_id auto_send limit prev_cursor next_cursor w))))\<rparr>\<rparr>,
      w\<lparr>sent := sent w @ [outgoing (list_relationships self bucket_id auto_send limit prev_cursor next_cursor w)]\<rparr>)"
  unfolding list_relationships_outgoing
  by (simp add: list_relationships_def get_base_url_def session_request_eq Let_def split: sum.splits)

lemma list_relationships_failure:
  "400 \<le> status_code (server w (sent w) (outgoing (list_relationships self bucket_id auto_send limit prev_cursor next_cursor w))) \<Longrightarrow>
   status_code (server w (sent w) (outgoing (list_relationships self bucket_id auto_send limit prev_cursor next_cursor w))) < 600 \<Longrightarrow>
   fst (list_relationships self bucket_id auto_send limit prev_cursor next_cursor w) = Inl (HTTPError (server w (sent w) (outgoing (list_relationships self bucket_id auto_send limit prev_cursor next_cursor w))))"
  unfolding list_relationships_outgoing
  by (simp add: list_relationships_def get_base_url_def session_request_eq Let_def raise_for_status_def)

lemma get_organization_details_outgoing:
  "outgoing (get_organization_details self w) =
     \<lparr>rverb = GET, rurl = ''https://api.orderful.com/v3/organizations/me'',
       rparams = None,
       rjson = None,
       rheaders = None, rsession_headers = headers (client self),
       rcookies = cookies (client self)\<rparr>"
  by (simp add: get_organization_details_def get_base_url_def outgoing_def session_request_eq Let_def split: sum.splits)

lemma get_organization_details_state:
  "snd (get_organization_details self w) =
     (self\<lparr>client := (client self)\<lparr>cookies :=
        extract_cookies_to_jar (cookies (client self)) (set_cookies (server w (sent w) (outgoing (get_organization_details self w))))\<rparr>\<rparr>,
      w\<lparr>sent := sent w @ [outgoing (get_organization_details self w)]\<rparr>)"
  unfolding get_organization_details_outgoing
  by (simp add: get_organization_details_def get_base_url_def session_request_eq Let_def split: sum.splits)

lemma get_organization_details_failure:
  "400 \<le> status_code (server w (sent w) (outgoing (get_organization_details self w))) \<Longrightarrow>
   status_code (server w (sent w) (outgoing (get_organization_details self w))) < 600 \<Longrightarrow>
   fst (get_organization_details self w) = Inl (HTTPError (server w (sent w) (outgoing (get_organization_details self w))))"
  unfolding get_organization_details_outgoing
  by (simp add: get_organization_details_def get_base_url_def session_request_eq Let_def raise_for_status_def)

lemma convert_data_outgoing:
  "outgoing (convert_data self origin_content destination_content w) =
     \<lparr>rverb = POST, rurl = ''https://api.orderful.com/v3/convert'',
       rparams = None,
       rjson = None,
       rheaders = Some [(''Content-Type'', origin_content), (''Accept'', destination_content)], rsession_headers = headers (client self),
       rcookies = cookies (client self)\<rparr>"
  by (simp add: convert_data_def get_base_url_def outgoing_def session_request_eq Let_def split: sum.splits)

lemma convert_data_state:
  "snd (convert_data self origin_content destination_content w) =
     (self\<lparr>client := (client self)\<lparr>cookies :=
        extract_cookies_to_jar (cookies (client self)) (set_cookies (server w (sent w) (outgoing (convert_data self origin_content destination_content w))))\<rparr>\<rparr>,
      w\<lparr>sent := sent w @ [outgoing (convert_data self origin_content destination_content w)]\<rparr>)"
  unfolding convert_data_outgoing
  by (simp add: convert_data_def get_base_url_def session_request_eq Let_def split: sum.splits)

lemma convert_data_failure:
  "400 \<le> status_code (server w (sent w) (outgoing (convert_data self origin_content destination_content w))) \<Longrightarrow>
   status_code (server w (sent w) (outgoing (convert_data self origin_content destination_content w))) < 600 \<Longrightarrow>
   fst (convert_data self origin_content destination_content w) = Inl (HTTPError (server w (sent w) (outgoing (convert_data self origin_content destination_content w))))"
  unfolding convert_data_outgoing
  by (simp add: convert_data_def get_base_url_def session_request_eq Let_def raise_for_status_def)

lemma create_transaction_outgoing:
  "outgoing (create_transaction self orderful_type message sender_isa_id receiver_isa_id w) =
     \<lparr>rverb = POST, rurl = ''https://api.orderful.com/v3/transactions'',
       rparams = None,
       rjson = Some (PDict [(''type'', PDict [(''name'', orderful_type)]), (''stream'', stream self), (''message'', message), (''sender'', PDict [(''isaId'', sender_isa_id)]), (''receiver'', PDict [(''isaId'', receiver_isa_id)])]),
       rheaders = None, rsession_headers = headers (client self),
       rcookies = cookies (client self)\<rparr>"
  by (simp add: create_transaction_def get_base_url_def outgoing_def session_request_eq Let_def split: sum.splits)

lemma create_transaction_state:
  "snd (create_transaction self orderful_type message sender_isa_id receiver_isa_id w) =
     (self\<lparr>client := (client self)\<lparr>cookies :=
        extract_cookies_to_jar (cookies (client self)) (set_cookies (server w (sent w) (outgoing (create_transaction self orderful_type message sender_isa_id receiver_isa_id w))))\<rparr>\<rparr>,
      w\<lparr>sent := sent w @ [outgoing (create_transaction self orderful_type message sender_isa_id receiver_isa_id w)]\<rparr>)"
  unfolding create_transaction_outgoing
  by (simp add: create_transaction_def get_base_url_def session_request_eq Let_def split: sum.splits)

lemma create_transaction_failure:
  "400 \<le> status_code (server w (sent w) (outgoing (create_transaction self orderful_type message sender_isa_id receiver_isa_id w))) \<Longrightarrow>
   status_code (server w (sent w) (outgoing (create_transaction self orderful_type message sender_isa_id receiver_isa_id w))) < 600 \<Longrightarrow>
   fst (create_transaction self orderful_type message sender_isa_id receiver_isa_id w) = Inl (HTTPError (server w (sent w) (outgoing (create_transaction self orderful_type message sender_isa_id receiver_isa_id w))))"
  unfolding create_transaction_outgoing
  by (simp add: create_transaction_def get_base_url_def session_request_eq Let_def raise_for_status_def)

lemma list_transactions_outgoing:
  "outgoing (list_transactions self prev_cursor next_cursor created_at business_numbers transaction_type validation_status delivery_status acknowledgment_status sender_isa_id receiver_isa_id reference_identifier sender_interchange_reference_identifier sender_group_reference_identifier sender_transaction_reference_identifier receiver_interchange_reference_identifier receiver_group_reference_identifier receiver_transaction_reference_identifier w) =
     \<lparr>rverb = GET, rurl = ''https://api.orderful.com/v3/transactions'',
       rparams = Some (if_update (truthy receiver_transaction_reference_identifier) ''receiverTransactionReferenceIdentifier'' (receiver_transaction_reference_identifier) (if_update (truthy receiver_group_reference_identifier) ''receiverGroupReferenceIdentifier'' (receiver_group_reference_identifier) (if_update (truthy receiver_interchange_reference_identifier) ''receiverInterchangeReferenceIdentifier'' (receiver_interchange_reference_identifier) (if_update (truthy sender_transaction_reference_identifier) ''senderTransactionReferenceIdentifier'' (sender_transaction_reference_identifier) (if_update (truthy sender_group_reference_identifier) ''senderGroupReferenceIdentifier'' (sender_group_reference_identifier) (if_update (truthy sender_interchange_reference_identifier) ''senderInterchangeReferenceIdentifier'' (sender_interchange_reference_identifier) (if_update (truthy reference_identifier) ''referenceIdentifier'' (reference_identifier) (if_update (truthy receiver_isa_id) ''receiverIsaId'' (receiver_isa_id) (if_update (truthy sender_isa_id) ''senderIsaId'' (sender_isa_id) (if_update (truthy acknowledgment_status) ''acknowledgmentStatus'' (acknowledgment_status) (if_update (truthy delivery_status) ''deliveryStatus'' (delivery_status) (if_update (truthy validation_status) ''validationStatus'' (validation_status) (if_update (truthy transaction_type) ''transactionType'' (transaction_type) (if_update (truthy business_numbers) ''businessNumbers'' (business_numbers) (if_update (truthy created_at) ''createdAt'' (created_at) (if_update (truthy next_cursor) ''nextCursor'' (next_cursor) (if_update (truthy prev_cursor) ''prevCursor'' (prev_cursor) []))))))))))))))))),
       rjson = None,
       rheaders = None, rsession_headers = headers (client self),
       rcookies = cookies (client self)\<rparr>"
  by (simp add: list_transactions_def get_base_url_def outgoing_def session_request_eq Let_def split: sum.splits)

lemma list_transactions_state:
  "snd (list_transactions self prev_cursor next_cursor created_at business_numbers transaction_type validation_status delivery_status acknowledgment_status sender_isa_id receiver_isa_id reference_identifier sender_interchange_reference_identifier sender_group_reference_identifier sender_transaction_reference_identifier receiver_interchange_reference_identifier receiver_group_reference_identifier receiver_transaction_reference_identifier w) =
     (self\<lparr>client := (client self)\<lparr>cookies :=
        extract_cookies_to_jar (cookies (client self)) (set_cookies (server w (sent w) (outgoing (list_transactions self prev_cursor next_cursor created_at business_numbers transaction_type validation_status delivery_status acknowledgment_status sender_isa_id receiver_isa_id reference_identifier sender_interchange_reference_identifier sender_group_reference_identifier sender_transaction_reference_identifier receiver_interchange_reference_identifier receiver_group_reference_identifier receiver_transaction_reference_identifier w))))\<rparr>\<rparr>,
      w\<lparr>sent := sent w @ [outgoing (list_transactions self prev_cursor next_cursor created_at business_numbers transaction_type validation_status delivery_status acknowledgment_status sender_isa_id receiver_isa_id reference_identifier sender_interchange_reference_identifier sender_group_reference_identifier sender_transaction_reference_identifier receiver_interchange_reference_identifier receiver_group_reference_identifier receiver_transaction_reference_identifier w)]\<rparr>)"
  unfolding list_transactions_outgoing
  by (simp add: list_transactions_def get_base_url_def session_request_eq Let_def split: sum.splits)

lemma list_transactions_failure:
  "400 \<le> status_code (server w (sent w) (outgoing (list_transactions self prev_cursor next_cursor created_at business_numbers transaction_type validation_status delivery_status acknowledgment_status sender_isa_id receiver_isa_id reference_identifier sender_interchange_reference_identifier sender_group_reference_identifier sender_transaction_reference_identifier receiver_interchange_reference_identifier receiver_group_reference_identifier receiver_transaction_reference_identifier w))) \<Longrightarrow>
   status_code (server w (sent w) (outgoing (list_transactions self prev_cursor next_cursor created_at business_numbers transaction_type validation_status delivery_status acknowledgment_status sender_isa_id receiver_isa_id reference_identifier sender_interchange_reference_identifier sender_group_reference_identifier sender_transaction_reference_identifier receiver_interchange_reference_identifier receiver_group_reference_identifier receiver_transaction_reference_identifier w))) < 600 \<Longrightarrow>
   fst (list_transactions self prev_cursor next_cursor created_at business_numbers transaction_type validation_status delivery_status acknowledgment_status sender_isa_id receiver_isa_id reference_identifier sender_interchange_reference_identifier sender_group_reference_identifier sender_transaction_reference_identifier receiver_interchange_reference_identifier receiver_group_reference_identifier receiver_transaction_reference_identifier w) = Inl (HTTPError (server w (sent w) (outgoing (list_transactions self prev_cursor next_cursor created_at business_numbers transaction_type validation_status delivery_status acknowledgment_status sender_isa_id receiver_isa_id reference_identifier sender_interchange_reference_identifier sender_group_reference_identifier sender_transaction_reference_identifier receiver_interchange_reference_identifier receiver_group_reference_identifier receiver_transaction_reference_identifier w))))"
  unfolding list_transactions_outgoing
  by (simp add: list_transactions_def get_base_url_def session_request_eq Let_def raise_for_status_def)

lemma get_transaction_outgoing:
  "outgoing (get_transaction self transaction_id include_message w) =
     \<lparr>rverb = GET, rurl = ''https://api.orderful.com/v3/transactions/'' @ transaction_id,
       rparams = Some (if_update (truthy include_message) ''expand'' (PStr ''message'') []),
       rjson = None,
       rheaders = None, rsession_headers = headers (client self),
       rcookies = cookies (client self)\<rparr>"
  by (simp add: get_transaction_def get_base_url_def outgoing_def session_request_eq Let_def split: sum.splits)

lemma get_transaction_state:
  "snd (get_transaction self transaction_id include_message w) =
     (self\<lparr>client := (client self)\<lparr>cookies :=
        extract_cookies_to_jar (cookies (client self)) (set_cookies (server w (sent w) (outgoing (get_transaction self transaction_id include_message w))))\<rparr>\<rparr>,
      w\<lparr>sent := sent w @ [outgoing (get_transaction self transaction_id include_message w)]\<rparr>)"
  unfolding get_transaction_outgoing
  by (simp add: get_transaction_def get_base_url_def session_request_eq Let_def split: sum.splits)

lemma get_transaction_failure:
  "400 \<le> status_code (server w (sent w) (outgoing (get_transaction self transaction_id include_message w))) \<Longrightarrow>
   status_code (server w (sent w) (outgoing (get_transaction self transaction_id include_message w))) < 600 \<Longrightarrow>
   fst (get_transaction self transaction_id include_message w) = Inl (HTTPError (server w (sent w) (outgoing (get_transaction self transaction_id include_message w))))"
  unfolding get_transaction_outgoing
  by (simp add: get_transaction_def get_base_url_def session_request_eq Let_def raise_for_status_def)

lemma get_transaction_message_outgoing:
  "outgoing (get_transaction_message self transaction_id w) =
     \<lparr>rverb = GET, rurl = ''https://api.orderful.com/v3/transactions/'' @ transaction_id @ ''/message'',
       rparams = None,
       rjson = None,
       rheaders = None, rsession_headers = headers (client self),
       rcookies = cookies (client self)\<rparr>"
  by (simp add: get_transaction_message_def get_base_url_def outgoing_def session_request_eq Let_def split: sum.splits)

lemma get_transaction_message_state:
  "snd (get_transaction_message self transaction_id w) =
     (self\<lparr>client := (client self)\<lparr>cookies :=
        extract_cookies_to_jar (cookies (client self)) (set_cookies (server w (sent w) (outgoing (get_transaction_message self transaction_id w))))\<rparr>\<rparr>,
      w\<lparr>sent := sent w @ [outgoing (get_transaction_message self transaction_id w)]\<rparr>)"
  unfolding get_transaction_message_outgoing
  by (simp add: get_transaction_message_def get_base_url_def session_request_eq Let_def split: sum.splits)

lemma get_transaction_message_failure:
  "400 \<le> status_code (server w (sent w) (outgoing (get_transaction_message self transaction_id w))) \<Longrightarrow>
   status_code (server w (sent w) (outgoing (get_transaction_message self transaction_id w))) < 600 \<Longrightarrow>
   fst (get_transaction_message self transaction_id w) = Inl (HTTPError (server w (sent w) (outgoing (get_transaction_message self transaction_id w))))"
  unfolding get_transaction_message_outgoing
  by (simp add: get_transaction_message_def get_base_url_def session_request_eq Let_def raise_for_status_def)

lemma create_acknowledgment_outgoing:
  "outgoing (create_acknowledgment self transaction_id status errors w) =
     \<lparr>rverb = POST, rurl = ''https://api.orderful.com/v3/transactions/'' @ transaction_id @ ''/acknowledgments'',
       rparams = None,
       rjson = Some (PDict (if_update (truthy errors) ''errors'' (errors) [(''status'', status)])),
       rheaders = None, rsession_headers = headers (client self),
       rcookies = cookies (client self)\<rparr>"
  by (simp add: create_acknowledgment_def get_base_url_def outgoing_def session_request_eq Let_def split: sum.splits)

lemma create_acknowledgment_state:
  "snd (create_acknowledgment self transaction_id status errors w) =
     (self\<lparr>client := (client self)\<lparr>cookies :=
        extract_cookies_to_jar (cookies (client self)) (set_cookies (server w (sent w) (outgoing (create_acknowledgment self transaction_id status errors w))))\<rparr>\<rparr>,
      w\<lparr>sent := sent w @ [outgoing (create_acknowledgment self transaction_id status errors w)]\<rparr>)"
  unfolding create_acknowledgment_outgoing
  by (simp add: create_acknowledgment_def get_base_url_def session_request_eq Let_def split: sum.splits)

lemma create_acknowledgment_failure:
  "400 \<le> status_code (server w (sent w) (outgoing (create_acknowledgment self transaction_id status errors w))) \<Longrightarrow>
   status_code (server w (sent w) (outgoing (create_acknowledgment self transaction_id status errors w))) < 600 \<Longrightarrow>
   fst (create_acknowledgment self transaction_id status errors w) = Inl (HTTPError (server w (sent w) (outgoing (create_acknowledgment self transaction_id status errors w))))"
  unfolding create_acknowledgment_outgoing
  by (simp add: create_acknowledgment_def get_base_url_def session_request_eq Let_def raise_for_status_def)

lemma get_acknowledgment_outgoing:
  "outgoing (get_acknowledgment self transaction_id w) =
     \<lparr>rverb = GET, rurl = ''https://api.orderful.com/v3/transactions/'' @ transaction_id @ ''/acknowledgment'',
       rparams = None,
       rjson = None,
       rheaders = None, rsession_headers = headers (client self),
       rcookies = cookies (client self)\<rparr>"
  by (simp add: get_acknowledgment_def get_base_url_def outgoing_def session_request_eq Let_def split: sum.splits)

lemma get_acknowledgment_state:
  "snd (get_acknowledgment self transaction_id w) =
     (self\<lparr>client := (client self)\<lparr>cookies :=
        extract_cookies_to_jar (cookies (client self)) (set_cookies (server w (sent w) (outgoing (get_acknowledgment self transaction_id w))))\<rparr>\<rparr>,
      w\<lparr>sent := sent w @ [outgoing (get_acknowledgment self transaction_id w)]\<rparr>)"
  unfolding get_acknowledgment_outgoing
  by (simp add: get_acknowledgment_def get_base_url_def session_request_eq Let_def split: sum.splits)

lemma get_acknowledgment_failure:
  "400 \<le> status_code (server w (sent w) (outgoing (get_acknowledgment self transaction_id w))) \<Longrightarrow>
   status_code (server w (sent w) (outgoing (get_acknowledgment self transaction_id w))) < 600 \<Longrightarrow>
   fst (get_acknowledgment self transaction_id w) = Inl (HTTPError (server w (sent w) (outgoing (get_acknowledgment self transaction_id w))))"
  unfolding get_acknowledgment_outgoing
  by (simp add: get_acknowledgment_def get_base_url_def session_request_eq Let_def raise_for_status_def)

lemma get_attachment_outgoing:
  "outgoing (get_attachment self attachment_id w) =
     \<lparr>rverb = GET, rurl = ''https://api.orderful.com/v3/attachments/'' @ attachment_id,
       rparams = None,
       rjson = None,
       rheaders = None, rsession_headers = headers (client self),
       rcookies = cookies (client self)\<rparr>"
  by (simp add: get_attachment_def get_base_url_def outgoing_def session_request_eq Let_def split: sum.splits)

lemma get_attachment_state:
  "snd (get_attachment self attachment_id w) =
     (self\<lparr>client := (client self)\<lparr>cookies :=
        extract_cookies_to_jar (cookies (client self)) (set_cookies (server w (sent w) (outgoing (get_attachment self attachment_id w))))\<rparr>\<rparr>,
      w\<lparr>sent := sent w @ [outgoing (get_attachment self attachment_id w)]\<rparr>)"
  unfolding get_attachment_outgoing
  by (simp add: get_attachment_def get_base_url_def session_request_eq Let_def split: sum.splits)

lemma get_attachment_failure:
  "400 \<le> status_code (server w (sent w) (outgoing (get_attachment self attachment_id w))) \<Longrightarrow>
   status_code (server w (sent w) (outgoing (get_attachment self attachment_id w))) < 600 \<Longrightarrow>
   fst (get_attachment self attachment_id w) = Inl (HTTPError (server w (sent w) (outgoing (get_attachment self attachment_id w))))"
  unfolding get_attachment_outgoing
  by (simp add: get_attachment_def get_base_url_def session_request_eq Let_def raise_for_status_def)

lemma get_attachment_content_outgoing:
  "outgoing (get_attachment_content self attachment_id w) =
     \<lparr>rverb = GET, rurl = ''https://api.orderful.com/v3/attachments/'' @ attachment_id @ ''/content'',
       rparams = None,
       rjson = None,
       rheaders = None, rsession_headers = headers (client self),
       rcookies = cookies (client self)\<rparr>"
  by (simp add: get_attachment_content_def get_base_url_def outgoing_def session_request_eq Let_def split: sum.splits)

lemma get_attachment_content_state:
  "snd (get_attachment_content self attachment_id w) =
     (self\<lparr>client := (client self)\<lparr>cookies :=
        extract_cookies_to_jar (cookies (client self)) (set_cookies (server w (sent w) (outgoing (get_attachment_content self attachment_id w))))\<rparr>\<rparr>,
      w\<lparr>sent := sent w @ [outgoing (get_attachment_content self attachment_id w)]\<rparr>)"
  unfolding get_attachment_content_outgoing
  by (simp add: get_attachment_content_def get_base_url_def session_request_eq Let_def split: sum.splits)

lemma get_attachment_content_failure:
  "400 \<le> status_code (server w (sent w) (outgoing (get_attachment_content self attachment_id w))) \<Longrightarrow>
   status_code (server w (sent w) (outgoing (get_attachment_content self attachment_id w))) < 600 \<Longrightarrow>
   fst (get_attachment_content self attachment_id w) = Inl (HTTPError (server w (sent w) (outgoing (get_attachment_content self attachment_id w))))"
  unfolding get_attachment_content_outgoing
  by (simp add: get_attachment_content_def get_base_url_def session_request_eq Let_def raise_for_status_def)

lemma approve_delivery_outgoing:
  "outgoing (approve_delivery self delivery_id note w) =
     \<lparr>rverb = POST, rurl = ''https://api.orderful.com/v3/deliveries/'' @ delivery_id @ ''/approve'',
       rparams = None,
       rjson = Some (PDict (if_update (truthy note) ''note'' (note) [])),
       rheaders = None, rsession_headers = headers (client self),
       rcookies = cookies (client self)\<rparr>"
  by (simp add: approve_delivery_def get_base_url_def outgoing_def session_request_eq Let_def split: sum.splits)

lemma approve_delivery_state:
  "snd (approve_delivery self delivery_id note w) =
     (self\<lparr>client := (client self)\<lparr>cookies :=
        extract_cookies_to_jar (cookies (client self)) (set_cookies (server w (sent w) (outgoing (approve_delivery self delivery_id note w))))\<rparr>\<rparr>,
      w\<lparr>sent := sent w @ [outgoing (approve_delivery self delivery_id note w)]\<rparr>)"
  unfolding approve_delivery_outgoing
  by (simp add: approve_delivery_def get_base_url_def session_request_eq Let_def split: sum.splits)

lemma approve_delivery_failure:
  "400 \<le> status_code (server w (sent w) (outgoing (approve_delivery self delivery_id note w))) \<Longrightarrow>
   status_code (server w (sent w) (outgoing (approve_delivery self delivery_id note w))) < 600 \<Longrightarrow>
   fst (approve_delivery self delivery_id note w) = Inl (HTTPError (server w (sent w) (outgoing (approve_delivery self delivery_id note w))))"
  unfolding approve_delivery_outgoing
  by (simp add: approve_delivery_def get_base_url_def session_request_eq Let_def raise_for_status_def)

lemma fail_delivery_outgoing:
  "outgoing (fail_delivery self delivery_id note w) =
     \<lparr>rverb = POST, rurl = ''https://api.orderful.com/v3/deliveries/'' @ delivery_id @ ''/fail'',
       rparams = None,
       rjson = Some (PDict (if_update (truthy note) ''note'' (note) [])),
       rheaders = None, rsession_headers = headers (client self),
       rcookies = cookies (client self)\<rparr>"
  by (simp add: fail_delivery_def get_base_url_def outgoing_def session_request_eq Let_def split: sum.splits)

lemma fail_delivery_state:
  "snd (fail_delivery self delivery_id note w) =
     (self\<lparr>client := (client self)\<lparr>cookies :=
        extract_cookies_to_jar (cookies (client self)) (set_cookies (server w (sent w) (outgoing (fail_delivery self delivery_id note w))))\<rparr>\<rparr>,
      w\<lparr>sent := sent w @ [outgoing (fail_delivery self delivery_id note w)]\<rparr>)"
  unfolding fail_delivery_outgoing
  by (simp add: fail_delivery_def get_base_url_def session_request_eq Let_def split: sum.splits)

lemma fail_delivery_failure:
  "400 \<le> status_code (server w (sent w) (outgoing (fail_delivery self delivery_id note w))) \<Longrightarrow>
   status_code (server w (sent w) (outgoing (fail_delivery self delivery_id note w))) < 600 \<Longrightarrow>
   fst (fail_delivery self delivery_id note w) = Inl (HTTPError (server w (sent w) (outgoing (fail_delivery self delivery_id note w))))"
  unfolding fail_delivery_outgoing
  by (simp add: fail_delivery_def get_base_url_def session_request_eq Let_def raise_for_status_def)

lemma get_delivery_outgoing:
  "outgoing (get_delivery self delivery_id w) =
     \<lparr>rverb = GET, rurl = ''https://api.orderful.com/v3/deliveries/'' @ delivery_id,
       rparams = None,
       rjson = None,
       rheaders = None, rsession_headers = headers (client self),
       rcookies = cookies (client self)\<rparr>"
  by (simp add: get_delivery_def get_base_url_def outgoing_def session_request_eq Let_def split: sum.splits)

lemma get_delivery_state:
  "snd (get_delivery self delivery_id w) =
     (self\<lparr>client := (client self)\<lparr>cookies :=
        extract_cookies_to_jar (cookies (client self)) (set_cookies (server w (sent w) (outgoing (get_delivery self delivery_id w))))\<rparr>\<rparr>,
      w\<lparr>sent := sent w @ [outgoing (get_delivery self delivery_id w)]\<rparr>)"
  unfolding get_delivery_outgoing
  by (simp add: get_delivery_def get_base_url_def session_request_eq Let_def split: sum.splits)

lemma get_delivery_failure:
  "400 \<le> status_code (server w (sent w) (outgoing (get_delivery self delivery_id w))) \<Longrightarrow>
   status_code (server w (sent w) (outgoing (get_delivery self delivery_id w))) < 600 \<Longrightarrow>
   fst (get_delivery self delivery_id w) = Inl (HTTPError (server w (sent w) (outgoing (get_delivery self delivery_id w))))"
  unfolding get_delivery_outgoing
  by (simp add: get_delivery_def get_base_url_def session_request_eq Let_def raise_for_status_def)

lemma generate_label_outgoing:
  "outgoing (generate_label self label_type kwargs w) =
     \<lparr>rverb = POST, rurl = ''https://api.orderful.com/v3/labels/'' @ label_type,
       rparams = None,
       rjson = Some (PDict kwargs),
       rheaders = None, rsession_headers = headers (client self),
       rcookies = cookies (client self)\<rparr>"
  by (simp add: generate_label_def get_base_url_def outgoing_def session_request_eq Let_def split: sum.splits)

lemma generate_label_state:
  "snd (generate_label self label_type kwargs w) =
     (self\<lparr>client := (client self)\<lparr>cookies :=
        extract_cookies_to_jar (cookies (client self)) (set_cookies (server w (sent w) (outgoing (generate_label self label_type kwargs w))))\<rparr>\<rparr>,
      w\<lparr>sent := sent w @ [outgoing (generate_label self label_type kwargs w)]\<rparr>)"
  unfolding generate_label_outgoing
  by (simp add: generate_label_def get_base_url_def session_request_eq Let_def split: sum.splits)

lemma generate_label_failure:
  "400 \<le> status_code (server w (sent w) (outgoing (generate_label self label_type kwargs w))) \<Longrightarrow>
   status_code (server w (sent w) (outgoing (generate_label self label_type kwargs w))) < 600 \<Longrightarrow>
   fst (generate_label self label_type kwargs w) = Inl (HTTPError (server w (sent w) (outgoing (generate_label self label_type kwargs w))))"
  unfolding generate_label_outgoing
  by (simp add: generate_label_def get_base_url_def session_request_eq Let_def raise_for_status_def)

section \<open>Every operation\<close>

lemma perform_outgoing_indep: "outgoing (perform self c w) = outgoing (perform self c w')"
  by (cases c) (simp_all only: perform.simps get_transactions_from_poller_bucket_outgoing list_relationships_outgoing get_organization_details_outgoing convert_data_outgoing create_transaction_outgoing list_transactions_outgoing get_transaction_outgoing get_transaction_message_outgoing create_acknowledgment_outgoing get_acknowledgment_outgoing get_attachment_outgoing get_attachment_content_outgoing approve_delivery_outgoing fail_delivery_outgoing get_delivery_outgoing generate_label_outgoing)

lemma perform_state:
  "snd (perform self c w) =
     (self\<lparr>client := (client self)\<lparr>cookies :=
        extract_cookies_to_jar (cookies (client self))
          (set_cookies (server w (sent w) (outgoing (perform self c w))))\<rparr>\<rparr>,
      w\<lparr>sent := sent w @ [outgoing (perform self c w)]\<rparr>)"
  by (cases c) (simp_all only: perform.simps get_transactions_from_poller_bucket_state list_relationships_state get_organization_details_state convert_data_state create_transaction_state list_transactions_state get_transaction_state get_transaction_message_state create_acknowledgment_state get_acknowledgment_state get_attachment_state get_attachment_content_state approve_delivery_state fail_delivery_state get_delivery_state generate_label_state)

lemma perform_session_headers:
  "rsession_headers (outgoing (perform self c w)) = headers (client self)
   \<and> rcookies (outgoing (perform self c w)) = cookies (client self)"
  by (cases c) (simp_all add: get_transactions_from_poller_bucket_outgoing list_relationships_outgoing get_organization_details_outgoing convert_data_outgoing create_transaction_outgoing list_transactions_outgoing get_transaction_outgoing get_transaction_message_outgoing create_acknowledgment_outgoing get_acknowledgment_outgoing get_attachment_outgoing get_attachment_content_outgoing approve_delivery_outgoing fail_delivery_outgoing get_delivery_outgoing generate_label_outgoing)

lemma perform_config:
  "stream (fst (snd (perform self c w))) = stream self
   \<and> orderful_api_key (fst (snd (perform self c w))) = orderful_api_key self
   \<and> api_headers (fst (snd (perform self c w))) = api_headers self
   \<and> headers (client (fst (snd (perform self c w)))) = headers (client self)"
  by (simp add: perform_state)

lemma perform_all_config:
  "stream (fst (perform_all self cs w)) = stream self
   \<and> orderful_api_key (fst (perform_all self cs w)) = orderful_api_key self
   \<and> api_headers (fst (perform_all self cs w)) = api_headers self
   \<and> headers (client (fst (perform_all self cs w))) = headers (client self)"
proof (induction cs arbitrary: self w)
  case Nil
  show ?case by simp
next
  case (Cons c cs)
  obtain result self' w' where p: "perform self c w = (result, self', w')"
    by (cases "perform self c w")
  with perform_config [of self c w]
  have same: "stream self' = stream self \<and> orderful_api_key self' = orderful_api_key self
      \<and> api_headers self' = api_headers self \<and> headers (client self') = headers (client self)"
    by simp
  from Cons.IH [of self' w'] same p show ?case
    by simp
qed

lemma perform_failure:
  "400 \<le> status_code (server w (sent w) (outgoing (perform self c w))) \<Longrightarrow>
   status_code (server w (sent w) (outgoing (perform self c w))) < 600 \<Longrightarrow>
   fst (perform self c w) = Inl (HTTPError (server w (sent w) (outgoing (perform self c w))))"
  by (cases c) (simp_all only: perform.simps get_transactions_from_poller_bucket_failure list_relationships_failure get_organization_details_failure convert_data_failure create_transaction_failure list_transactions_failure get_transaction_failure get_transaction_message_failure create_acknowledgment_failure get_acknowledgment_failure get_attachment_failure get_attachment_content_failure approve_delivery_failure fail_delivery_failure get_delivery_failure generate_label_failure)

section \<open>Results of the calls that read the response\<close>

lemma create_transaction_result:
  "\<not> (400 \<le> status_code (server w (sent w) (outgoing (create_transaction self orderful_type message sender_isa_id receiver_isa_id w))) \<and> status_code (server w (sent w) (outgoing (create_transaction self orderful_type message sender_isa_id receiver_isa_id w))) < 600) \<Longrightarrow>
   fst (create_transaction self orderful_type message sender_isa_id receiver_isa_id w) =
     (case json_loads w (content (server w (sent w) (outgoing (create_transaction self orderful_type message sender_isa_id receiver_isa_id w)))) of
        None \<Rightarrow> Inl JSONDecodeError
      | Some data \<Rightarrow> subscript data ''id'')"
  unfolding create_transaction_outgoing
  by (auto simp add: create_transaction_def get_base_url_def session_request_eq Let_def
        raise_for_status_def response_json_def split: option.splits)

lemma list_transactions_result:
  "\<not> (400 \<le> status_code (server w (sent w) (outgoing (list_transactions self prev_cursor next_cursor created_at business_numbers transaction_type validation_status delivery_status acknowledgment_status sender_isa_id receiver_isa_id reference_identifier sender_interchange_reference_identifier sender_group_reference_identifier sender_transaction_reference_identifier receiver_interchange_reference_identifier receiver_group_reference_identifier receiver_transaction_reference_identifier w))) \<and> status_code (server w (sent w) (outgoing (list_transactions self prev_cursor next_cursor created_at business_numbers transaction_type validation_status delivery_status acknowledgment_status sender_isa_id receiver_isa_id reference_identifier sender_interchange_reference_identifier sender_group_reference_identifier sender_transaction_reference_identifier receiver_interchange_reference_identifier receiver_group_reference_identifier receiver_transaction_reference_identifier w))) < 600) \<Longrightarrow>
   fst (list_transactions self prev_cursor next_cursor created_at business_numbers transaction_type validation_status delivery_status acknowledgment_status sender_isa_id receiver_isa_id reference_identifier sender_interchange_reference_identifier sender_group_reference_identifier sender_transaction_reference_identifier receiver_interchange_reference_identifier receiver_group_reference_identifier receiver_transaction_reference_identifier w) =
     (case json_loads w (content (server w (sent w) (outgoing (list_transactions self prev_cursor next_cursor created_at business_numbers transaction_type validation_status delivery_status acknowledgment_status sender_isa_id receiver_isa_id reference_identifier sender_interchange_reference_identifier sender_group_reference_identifier sender_transaction_reference_identifier receiver_interchange_reference_identifier receiver_group_reference_identifier receiver_transaction_reference_identifier w)))) of
        None \<Rightarrow> Inl JSONDecodeError
      | Some data \<Rightarrow>
          (case subscript data ''metadata'' of Inl e \<Rightarrow> Inl e | Inr metadata \<Rightarrow>
          (case subscript data ''data'' of Inl e \<Rightarrow> Inl e
           | Inr transactions \<Rightarrow> Inr (PTuple [metadata, transactions]))))"
  unfolding list_transactions_outgoing
  by (auto simp add: list_transactions_def get_base_url_def session_request_eq Let_def
        raise_for_status_def response_json_def split: option.splits sum.splits)

lemma get_attachment_content_result:
  "\<not> (400 \<le> status_code (server w (sent w) (outgoing (get_attachment_content self attachment_id w))) \<and> status_code (server w (sent w) (outgoing (get_attachment_content self attachment_id w))) < 600) \<Longrightarrow>
   fst (get_attachment_content self attachment_id w) = Inr (PBytes (content (server w (sent w) (outgoing (get_attachment_content self attachment_id w)))))"
  unfolding get_attachment_content_outgoing
  by (auto simp add: get_attachment_content_def get_base_url_def session_request_eq Let_def
        raise_for_status_def)

lemma subscript_dict:
  "subscript (PDict d) k = (case map_of d k of None \<Rightarrow> Inl (KeyError k) | Some x \<Rightarrow> Inr x)"
  by (simp add: subscript_def)

lemma subscript_Inr:
  "subscript v k = Inr x \<Longrightarrow> \<exists>d. v = PDict d \<and> map_of d k = Some x"
  by (cases v) (auto simp add: subscript_def split: option.splits)

section \<open>Optional arguments\<close>

lemma get_transactions_from_poller_bucket_optional:
  "(let r = outgoing (get_transactions_from_poller_bucket self bucket_id limit w)
    in query_param ''limit'' r = (if truthy limit then Some (limit) else None))"
  by (simp add: get_transactions_from_poller_bucket_outgoing query_param_def body_key_def map_of_if_update Let_def)

lemma list_relationships_optional:
  "(let r = outgoing (list_relationships self bucket_id auto_send limit prev_cursor next_cursor w)
    in query_param ''auto_send'' r = (if truthy auto_send then Some (auto_send) else None)
      \<and> query_param ''limit'' r = (if truthy limit then Some (limit) else None)
      \<and> query_param ''prev_cursor'' r = (if truthy prev_cursor then Some (prev_cursor) else None)
      \<and> query_param ''next_cursor'' r = (if truthy next_cursor then Some (next_cursor) else None))"
  by (simp add: list_relationships_outgoing query_param_def body_key_def map_of_if_update Let_def)

lemma list_transactions_optional:
  "(let r = outgoing (list_transactions self prev_cursor next_cursor created_at business_numbers transaction_type validation_status delivery_status acknowledgment_status sender_isa_id receiver_isa_id reference_identifier sender_interchange_reference_identifier sender_group_reference_identifier sender_transaction_reference_identifier receiver_interchange_reference_identifier receiver_group_reference_identifier receiver_transaction_reference_identifier w)
    in query_param ''prevCursor'' r = (if truthy prev_cursor then Some (prev_cursor) else None)
      \<and> query_param ''nextCursor'' r = (if truthy next_cursor then Some (next_cursor) else None)
      \<and> query_param ''createdAt'' r = (if truthy created_at then Some (created_at) else None)
      \<and> query_param ''businessNumbers'' r = (if truthy business_numbers then Some (business_numbers) else None)
      \<and> query_param ''transactionType'' r = (if truthy transaction_type then Some (transaction_type) else None)
      \<and> query_param ''validationStatus'' r = (if truthy validation_status then Some (validation_status) else None)
      \<and> query_param ''deliveryStatus'' r = (if truthy delivery_status then Some (delivery_status) else None)
      \<and> query_param ''acknowledgmentStatus'' r = (if truthy acknowledgment_status then Some (acknowledgment_status) else None)
      \<and> query_param ''senderIsaId'' r = (if truthy sender_isa_id then Some (sender_isa_id) else None)
      \<and> query_param ''receiverIsaId'' r = (if truthy receiver_isa_id then Some (receiver_isa_id) else None)
      \<and> query_param ''referenceIdentifier'' r = (if truthy reference_identifier then Some (reference_identifier) else None)
      \<and> query_param ''senderInterchangeReferenceIdentifier'' r = (if truthy sender_interchange_reference_identifier then Some (sender_interchange_reference_identifier) else None)
      \<and> query_param ''senderGroupReferenceIdentifier'' r = (if truthy sender_group_reference_identifier then Some (sender_group_reference_identifier) else None)
      \<and> query_param ''senderTransactionReferenceIdentifier'' r = (if truthy sender_transaction_reference_identifier then Some (sender_transaction_reference_identifier) else None)
      \<and> query_param ''receiverInterchangeReferenceIdentifier'' r = (if truthy receiver_interchange_reference_identifier then Some (receiver_interchange_reference_identifier) else None)
      \<and> query_param ''receiverGroupReferenceIdentifier'' r = (if truthy receiver_group_reference_identifier then Some (receiver_group_reference_identifier) else None)
      \<and> query_param ''receiverTransactionReferenceIdentifier'' r = (if truthy receiver_transaction_reference_identifier then Some (receiver_transaction_reference_identifier) else None))"
  by (simp add: list_transactions_outgoing query_param_def body_key_def map_of_if_update Let_def)

lemma get_transaction_optional:
  "(let r = outgoing (get_transaction self transaction_id include_message w)
    in query_param ''expand'' r = (if truthy include_message then Some (PStr ''message'') else None))"
  by (simp add: get_transaction_outgoing query_param_def body_key_def map_of_if_update Let_def)

lemma create_acknowledgment_optional:
  "(let r = outgoing (create_acknowledgment self transaction_id status errors w)
    in body_key ''errors'' r = (if truthy errors then Some (errors) else None))"
  by (simp add: create_acknowledgment_outgoing query_param_def body_key_def map_of_if_update Let_def)

lemma approve_delivery_optional:
  "(let r = outgoing (approve_delivery self delivery_id note w)
    in body_key ''note'' r = (if truthy note then Some (note) else None))"
  by (simp add: approve_delivery_outgoing query_param_def body_key_def map_of_if_update Let_def)

lemma fail_delivery_optional:
  "(let r = outgoing (fail_delivery self delivery_id note w)
    in body_key ''note'' r = (if truthy note then Some (note) else None))"
  by (simp add: fail_delivery_outgoing query_param_def body_key_def map_of_if_update Let_def)

lemma list_transactions_keys:
  "{k. query_param k (outgoing (list_transactions self prev_cursor next_cursor created_at business_numbers transaction_type validation_status delivery_status acknowledgment_status sender_isa_id receiver_isa_id reference_identifier sender_interchange_reference_identifier sender_group_reference_identifier sender_transaction_reference_identifier receiver_interchange_reference_identifier receiver_group_reference_identifier receiver_transaction_reference_identifier w)) \<noteq> None}
     \<subseteq> set [''prevCursor'',
        ''nextCursor'',
        ''createdAt'',
        ''businessNumbers'',
        ''transactionType'',
        ''validationStatus'',
        ''deliveryStatus'',
        ''acknowledgmentStatus'',
        ''senderIsaId'',
        ''receiverIsaId'',
        ''referenceIdentifier'',
        ''senderInterchangeReferenceIdentifier'',
        ''senderGroupReferenceIdentifier'',
        ''senderTransactionReferenceIdentifier'',
        ''receiverInterchangeReferenceIdentifier'',
        ''receiverGroupReferenceIdentifier'',
        ''receiverTransactionReferenceIdentifier'']"
  by (auto simp add: list_transactions_outgoing query_param_def map_of_if_update split: if_splits)

section \<open>The configuration predicates\<close>

text \<open>
  Claim C6, as the specification states it: \<open>is_enabled()\<close> returns false when the
  stream or the api key is falsy and true otherwise. The method returns one of its two
  operands, not a boolean: with the stream \<open>"LIVE"\<close> and the key \<open>"secret"\<close> it
  returns \<open>"secret"\<close>, and with an empty stream it returns the empty string.
\<close>

theorem is_enabled_boolean_counterexample:
  "is_enabled (init \<lparr>headers = [], cookies = []\<rparr> (PStr ''LIVE'') (PStr ''secret'')) = PStr ''secret''
   \<and> is_enabled (init \<lparr>headers = [], cookies = []\<rparr> (PStr ''LIVE'') (PStr ''secret'')) \<noteq> PBool True
   \<and> is_enabled (init \<lparr>headers = [], cookies = []\<rparr> (PStr []) (PStr ''secret'')) = PStr []
   \<and> is_enabled (init \<lparr>headers = [], cookies = []\<rparr> (PStr []) (PStr ''secret'')) \<noteq> PBool False"
  by (simp add: is_enabled_def py_and_def init_def Let_def)

text \<open>
  Claim C6, amended: \<open>is_enabled()\<close> returns a falsy value when the stream or the api key
  is falsy and a truthy value otherwise; the value is the stream itself when the stream is
  falsy and the api key otherwise. \<open>is_live_stream()\<close> returns true exactly when the
  stream equals the string \<open>"LIVE"\<close>.
\<close>

theorem is_enabled_truthiness:
  "truthy (is_enabled self) = (truthy (stream self) \<and> truthy (orderful_api_key self))
   \<and> is_enabled self = (if truthy (stream self) then orderful_api_key self else stream self)
   \<and> is_live_stream self = (stream self = PStr ''LIVE'')"
  by (simp add: is_enabled_def py_and_def is_live_stream_def)

theorem is_enabled_truthiness_witness:
  "truthy (is_enabled demo_client) \<and> is_enabled demo_client = PStr ''secret''
   \<and> \<not> is_live_stream demo_client"
  using is_enabled_truthiness [of demo_client]
  by (simp add: demo_client_def init_def Let_def)

section \<open>Optional arguments in the request\<close>

text \<open>
  Claim C1, as the specification states it: for each of the seven operations with optional
  arguments, a truthy argument puts its key into the request with exactly the value
  supplied. \<open>get_transaction\<close> does not: a truthy \<open>include_message\<close> sends the key
  \<open>expand\<close> with the constant \<open>"message"\<close>, whatever the value supplied, here
  \<open>True\<close>.
\<close>

theorem get_transaction_expand_counterexample:
  "truthy (PBool True)
   \<and> query_param ''expand'' (outgoing (get_transaction demo_client ''tx_123'' (PBool True) (demo_world 200 body_page)))
       = Some (PStr ''message'')
   \<and> query_param ''expand'' (outgoing (get_transaction demo_client ''tx_123'' (PBool True) (demo_world 200 body_page)))
       \<noteq> Some (PBool True)"
  by (simp add: get_transaction_def get_base_url_def outgoing_def session_request_def
        query_param_def if_update_def Let_def raise_for_status_def demo_world_def split: sum.splits)

text \<open>
  Claim C1, amended: for each of the seven operations and each of its optional arguments, a
  falsy argument leaves the key out of the query parameters or the JSON body, and a truthy
  one puts the key in with exactly the value supplied; except that for
  \<open>get_transaction\<close> a truthy \<open>include_message\<close> puts in the key \<open>expand\<close> with the
  constant value \<open>"message"\<close>.
\<close>

theorem optional_arguments_follow_truthiness:
  "(let r = outgoing (get_transactions_from_poller_bucket self bucket_id limit w)
    in query_param ''limit'' r = (if truthy limit then Some (limit) else None))
   \<and> (let r = outgoing (list_relationships self bucket_id auto_send limit prev_cursor next_cursor w)
    in query_param ''auto_send'' r = (if truthy auto_send then Some (auto_send) else None)
      \<and> query_param ''limit'' r = (if truthy limit then Some (limit) else None)
      \<and> query_param ''prev_cursor'' r = (if truthy prev_cursor then Some (prev_cursor) else None)
      \<and> query_param ''next_cursor'' r = (if truthy next_cursor then Some (next_cursor) else None))
   \<and> (let r = outgoing (list_transactions self prev_cursor next_cursor created_at business_numbers transaction_type validation_status delivery_status acknowledgment_status sender_isa_id receiver_isa_id reference_identifier sender_interchange_reference_identifier sender_group_reference_identifier sender_transaction_reference_identifier receiver_interchange_reference_identifier receiver_group_reference_identifier receiver_transaction_reference_identifier w)
    in query_param ''prevCursor'' r = (if truthy prev_cursor then Some (prev_cursor) else None)
      \<and> query_param ''nextCursor'' r = (if truthy next_cursor then Some (next_cursor) else None)
      \<and> query_param ''createdAt'' r = (if truthy created_at then Some (created_at) else None)
      \<and> query_param ''businessNumbers'' r = (if truthy business_numbers then Some (business_numbers) else None)
      \<and> query_param ''transactionType'' r = (if truthy transaction_type then Some (transaction_type) else None)
      \<and> query_param ''validationStatus'' r = (if truthy validation_status then Some (validation_status) else None)
      \<and> query_param ''deliveryStatus'' r = (if truthy delivery_status then Some (delivery_status) else None)
      \<and> query_param ''acknowledgmentStatus'' r = (if truthy acknowledgment_status then Some (acknowledgment_status) else None)
      \<and> query_param ''senderIsaId'' r = (if truthy sender_isa_id then Some (sender_isa_id) else None)
      \<and> query_param ''receiverIsaId'' r = (if truthy receiver_isa_id then Some (receiver_isa_id) else None)
      \<and> query_param ''referenceIdentifier'' r = (if truthy reference_identifier then Some (reference_identifier) else None)
      \<and> query_param ''senderInterchangeReferenceIdentifier'' r = (if truthy sender_interchange_reference_identifier then Some (sender_interchange_reference_identifier) else None)
      \<and> query_param ''senderGroupReferenceIdentifier'' r = (if truthy sender_group_reference_identifier then Some (sender_group_reference_identifier) else None)
      \<and> query_param ''senderTransactionReferenceIdentifier'' r = (if truthy sender_transaction_reference_identifier then Some (sender_transaction_reference_identifier) else None)
      \<and> query_param ''receiverInterchangeReferenceIdentifier'' r = (if truthy receiver_interchange_reference_identifier then Some (receiver_interchange_reference_identifier) else None)
      \<and> query_param ''receiverGroupReferenceIdentifier'' r = (if truthy receiver_group_reference_identifier then Some (receiver_group_reference_identifier) else None)
      \<and> query_param ''receiverTransactionReferenceIdentifier'' r = (if truthy receiver_transaction_reference_identifier then Some (receiver_transaction_reference_identifier) else None))
   \<and> (let r = outgoing (get_transaction self transaction_id include_message w)
    in query_param ''expand'' r = (if truthy include_message then Some (PStr ''message'') else None))
   \<and> (let r = outgoing (create_acknowledgment self transaction_id status errors w)
    in body_key ''errors'' r = (if truthy errors then Some (errors) else None))
   \<and> (let r = outgoing (approve_delivery self delivery_id note w)
    in body_key ''note'' r = (if truthy note then Some (note) else None))
   \<and> (let r = outgoing (fail_delivery self delivery_id note w)
    in body_key ''note'' r = (if truthy note then Some (note) else None))"
  by (intro conjI get_transactions_from_poller_bucket_optional list_relationships_optional list_transactions_optional get_transaction_optional create_acknowledgment_optional approve_delivery_optional fail_delivery_optional)

theorem optional_arguments_follow_truthiness_witness:
  "query_param ''limit'' (outgoing (get_transactions_from_poller_bucket demo_client 7 (PInt 0) (demo_world 200 body_page))) = None
   \<and> query_param ''limit'' (outgoing (get_transactions_from_poller_bucket demo_client 7 (PInt 30) (demo_world 200 body_page)))
       = Some (PInt 30)"
  using optional_arguments_follow_truthiness
          [where self = demo_client and bucket_id = 7 and limit = "PInt 0" and w = "demo_world 200 body_page"]
        optional_arguments_follow_truthiness
          [where self = demo_client and bucket_id = 7 and limit = "PInt 30" and w = "demo_world 200 body_page"]
  by (simp add: Let_def)

section \<open>The query of list transactions\<close>

text \<open>
  Claim C3, as the specification states it: \<open>list_transactions\<close> has 16 optional
  arguments. It has 17 (two cursors and fifteen filters): called with seventeen truthy
  values it sends seventeen different keys.
\<close>

theorem list_transactions_sixteen_counterexample:
  "rparams (outgoing (list_transactions demo_client (PInt 1) (PInt 2) (PInt 3) (PInt 4) (PInt 5) (PInt 6) (PInt 7) (PInt 8) (PInt 9) (PInt 10) (PInt 11) (PInt 12) (PInt 13) (PInt 14) (PInt 15) (PInt 16) (PInt 17) (demo_world 200 body_page))) \<noteq> None
   \<and> length (the (rparams (outgoing (list_transactions demo_client
           (PInt 1) (PInt 2) (PInt 3) (PInt 4) (PInt 5) (PInt 6) (PInt 7) (PInt 8) (PInt 9) (PInt 10) (PInt 11) (PInt 12) (PInt 13) (PInt 14) (PInt 15) (PInt 16) (PInt 17) (demo_world 200 body_page))))) = 17
   \<and> distinct (map fst (the (rparams (outgoing (list_transactions demo_client
           (PInt 1) (PInt 2) (PInt 3) (PInt 4) (PInt 5) (PInt 6) (PInt 7) (PInt 8) (PInt 9) (PInt 10) (PInt 11) (PInt 12) (PInt 13) (PInt 14) (PInt 15) (PInt 16) (PInt 17) (demo_world 200 body_page))))))"
  by (simp add: list_transactions_outgoing if_update_def)

text \<open>
  Claim C3, amended: \<open>list_transactions\<close> maps its 17 optional snake_case arguments one
  to one to camelCase query keys: each truthy argument is in the query under its camelCase
  key with exactly its value, each falsy one is left out, and the query has no other key.
\<close>

theorem list_transactions_camel_case_keys:
  "(let r = outgoing (list_transactions self prev_cursor next_cursor created_at business_numbers transaction_type validation_status delivery_status acknowledgment_status sender_isa_id receiver_isa_id reference_identifier sender_interchange_reference_identifier sender_group_reference_identifier sender_transaction_reference_identifier receiver_interchange_reference_identifier receiver_group_reference_identifier receiver_transaction_reference_identifier w)
    in query_param ''prevCursor'' r = (if truthy prev_cursor then Some (prev_cursor) else None)
      \<and> query_param ''nextCursor'' r = (if truthy next_cursor then Some (next_cursor) else None)
      \<and> query_param ''createdAt'' r = (if truthy created_at then Some (created_at) else None)
      \<and> query_param ''businessNumbers'' r = (if truthy business_numbers then Some (business_numbers) else None)
      \<and> query_param ''transactionType'' r = (if truthy transaction_type then Some (transaction_type) else None)
      \<and> query_param ''validationStatus'' r = (if truthy validation_status then Some (validation_status) else None)
      \<and> query_param ''deliveryStatus'' r = (if truthy delivery_status then Some (delivery_status) else None)
      \<and> query_param ''acknowledgmentStatus'' r = (if truthy acknowledgment_status then Some (acknowledgment_status) else None)
      \<and> query_param ''senderIsaId'' r = (if truthy sender_isa_id then Some (sender_isa_id) else None)
      \<and> query_param ''receiverIsaId'' r = (if truthy receiver_isa_id then Some (receiver_isa_id) else None)
      \<and> query_param ''referenceIdentifier'' r = (if truthy reference_identifier then Some (reference_identifier) else None)
      \<and> query_param ''senderInterchangeReferenceIdentifier'' r = (if truthy sender_interchange_reference_identifier then Some (sender_interchange_reference_identifier) else None)
      \<and> query_param ''senderGroupReferenceIdentifier'' r = (if truthy sender_group_reference_identifier then Some (sender_group_reference_identifier) else None)
      \<and> query_param ''senderTransactionReferenceIdentifier'' r = (if truthy sender_transaction_reference_identifier then Some (sender_transaction_reference_identifier) else None)
      \<and> query_param ''receiverInterchangeReferenceIdentifier'' r = (if truthy receiver_interchange_reference_identifier then Some (receiver_interchange_reference_identifier) else None)
      \<and> query_param ''receiverGroupReferenceIdentifier'' r = (if truthy receiver_group_reference_identifier then Some (receiver_group_reference_identifier) else None)
      \<and> query_param ''receiverTransactionReferenceIdentifier'' r = (if truthy receiver_transaction_reference_identifier then Some (receiver_transaction_reference_identifier) else None))
   \<and> {k. query_param k (outgoing (list_transactions self prev_cursor next_cursor created_at business_numbers transaction_type validation_status delivery_status acknowledgment_status sender_isa_id receiver_isa_id reference_identifier sender_interchange_reference_identifier sender_group_reference_identifier sender_transaction_reference_identifier receiver_interchange_reference_identifier receiver_group_reference_identifier receiver_transaction_reference_identifier w)) \<noteq> None}
     \<subseteq> set [''prevCursor'',
        ''nextCursor'',
        ''createdAt'',
        ''businessNumbers'',
        ''transactionType'',
        ''validationStatus'',
        ''deliveryStatus'',
        ''acknowledgmentStatus'',
        ''senderIsaId'',
        ''receiverIsaId'',
        ''referenceIdentifier'',
        ''senderInterchangeReferenceIdentifier'',
        ''senderGroupReferenceIdentifier'',
        ''senderTransactionReferenceIdentifier'',
        ''receiverInterchangeReferenceIdentifier'',
        ''receiverGroupReferenceIdentifier'',
        ''receiverTransactionReferenceIdentifier'']"
  by (rule conjI [OF list_transactions_optional list_transactions_keys])

theorem list_transactions_camel_case_keys_witness:
  "query_param ''businessNumbers''
     (outgoing (list_transactions demo_client (PBool False) (PBool False) (PBool False) (PList [PStr ''PO-1''])
        (PBool False) (PBool False) (PBool False) (PBool False) (PBool False) (PBool False) (PBool False) (PBool False) (PBool False) (PBool False) (PBool False) (PBool False) (PBool False) (demo_world 200 body_page))) = Some (PList [PStr ''PO-1''])
   \<and> query_param ''business_numbers''
     (outgoing (list_transactions demo_client (PBool False) (PBool False) (PBool False) (PList [PStr ''PO-1''])
        (PBool False) (PBool False) (PBool False) (PBool False) (PBool False) (PBool False) (PBool False) (PBool False) (PBool False) (PBool False) (PBool False) (PBool False) (PBool False) (demo_world 200 body_page))) = None"
  using list_transactions_camel_case_keys
          [where self = demo_client and w = "demo_world 200 body_page" and business_numbers = "PList [PStr ''PO-1'']"
             and prev_cursor = "PBool False" and next_cursor = "PBool False" and created_at = "PBool False" and transaction_type = "PBool False" and validation_status = "PBool False" and delivery_status = "PBool False" and acknowledgment_status = "PBool False" and sender_isa_id = "PBool False" and receiver_isa_id = "PBool False" and reference_identifier = "PBool False" and sender_interchange_reference_identifier = "PBool False" and sender_group_reference_identifier = "PBool False" and sender_transaction_reference_identifier = "PBool False" and receiver_interchange_reference_identifier = "PBool False" and receiver_group_reference_identifier = "PBool False" and receiver_transaction_reference_identifier = "PBool False"]
  by (auto simp add: Let_def)

section \<open>Failure statuses\<close>

text \<open>
  Claim C2: for every operation that issues a request, when the response has a failure
  status (400 to 599) the call raises the HTTP error that carries that response. The
  body is not parsed first: the outcome is the same with any JSON decoder in place of the
  world's, also one that fails on the body. The failure is not swallowed (the call does
  not return) and not retried (the call has sent exactly one request).
\<close>

theorem failure_status_raises_http_error:
  assumes "400 \<le> status_code (server w (sent w) (outgoing (perform self c w)))"
    and "status_code (server w (sent w) (outgoing (perform self c w))) < 600"
  shows "fst (perform self c w) = Inl (HTTPError (server w (sent w) (outgoing (perform self c w))))
       \<and> fst (perform self c (w\<lparr>json_loads := l\<rparr>)) = Inl (HTTPError (server w (sent w) (outgoing (perform self c w))))
       \<and> sent (snd (snd (perform self c w))) = sent w @ [outgoing (perform self c w)]"
proof -
  have same: "outgoing (perform self c (w\<lparr>json_loads := l\<rparr>)) = outgoing (perform self c w)"
    by (rule perform_outgoing_indep)
  have "fst (perform self c (w\<lparr>json_loads := l\<rparr>)) =
          Inl (HTTPError (server (w\<lparr>json_loads := l\<rparr>) (sent (w\<lparr>json_loads := l\<rparr>))
                 (outgoing (perform self c (w\<lparr>json_loads := l\<rparr>)))))"
    by (rule perform_failure) (simp_all add: same assms)
  then have other: "fst (perform self c (w\<lparr>json_loads := l\<rparr>)) = Inl (HTTPError (server w (sent w) (outgoing (perform self c w))))"
    by (simp add: same)
  have one: "sent (snd (snd (perform self c w))) = sent w @ [outgoing (perform self c w)]"
    by (simp add: perform_state)
  from perform_failure [OF assms] other one show ?thesis
    by (intro conjI)
qed

theorem failure_status_raises_http_error_witness:
  "fst (perform demo_client (Get_attachment ''att_1'') (demo_world 404 body_empty))
     = Inl (HTTPError \<lparr>status_code = 404, content = body_empty, set_cookies = []\<rparr>)
   \<and> fst (perform demo_client (Get_attachment ''att_1'')
            ((demo_world 404 body_empty)\<lparr>json_loads := (\<lambda>b. None)\<rparr>))
     = Inl (HTTPError \<lparr>status_code = 404, content = body_empty, set_cookies = []\<rparr>)"
  using failure_status_raises_http_error
          [where self = demo_client and c = "Get_attachment ''att_1''"
             and w = "demo_world 404 body_empty" and l = "\<lambda>b. None"]
  by (simp add: demo_world_def)

section \<open>Creating a transaction\<close>

text \<open>
  Claim C4: every call of \<open>create_transaction\<close> sends one request, a POST to
  \<open>/transactions\<close> under the base URL, whose JSON body has exactly the keys \<open>type\<close>,
  \<open>stream\<close>, \<open>message\<close>, \<open>sender\<close> and \<open>receiver\<close>, with the stream of the client
  and the two ISA IDs wrapped under \<open>isaId\<close>. When the response has no failure status
  and its body is a JSON object with an \<open>id\<close>, the call returns exactly that \<open>id\<close>;
  and a call returns a value in no other case.
\<close>

theorem create_transaction_posts_and_returns_id:
  "sent (snd (snd (create_transaction self orderful_type message sender_isa_id receiver_isa_id w))) = sent w @
      [\<lparr>rverb = POST, rurl = ''https://api.orderful.com/v3/transactions'',
       rparams = None,
       rjson = Some (PDict [(''type'', PDict [(''name'', orderful_type)]), (''stream'', stream self),
                     (''message'', message), (''sender'', PDict [(''isaId'', sender_isa_id)]),
                     (''receiver'', PDict [(''isaId'', receiver_isa_id)])]),
       rheaders = None, rsession_headers = headers (client self),
       rcookies = cookies (client self)\<rparr>]
   \<and> (\<not> (400 \<le> status_code (server w (sent w) (outgoing (create_transaction self orderful_type message sender_isa_id receiver_isa_id w))) \<and> status_code (server w (sent w) (outgoing (create_transaction self orderful_type message sender_isa_id receiver_isa_id w))) < 600)
        \<and> json_loads w (content (server w (sent w) (outgoing (create_transaction self orderful_type message sender_isa_id receiver_isa_id w)))) = Some (PDict d)
        \<and> map_of d ''id'' = Some v
      \<longrightarrow> fst (create_transaction self orderful_type message sender_isa_id receiver_isa_id w) = Inr v)
   \<and> (fst (create_transaction self orderful_type message sender_isa_id receiver_isa_id w) = Inr v'
      \<longrightarrow> \<not> (400 \<le> status_code (server w (sent w) (outgoing (create_transaction self orderful_type message sender_isa_id receiver_isa_id w))) \<and> status_code (server w (sent w) (outgoing (create_transaction self orderful_type message sender_isa_id receiver_isa_id w))) < 600)
        \<and> (\<exists>d'. json_loads w (content (server w (sent w) (outgoing (create_transaction self orderful_type message sender_isa_id receiver_isa_id w)))) = Some (PDict d') \<and> map_of d' ''id'' = Some v'))"
proof -
  have "sent (snd (snd (create_transaction self orderful_type message sender_isa_id receiver_isa_id w))) =
          sent w @ [outgoing (create_transaction self orderful_type message sender_isa_id receiver_isa_id w)]"
    by (simp add: create_transaction_state)
  then have req: "sent (snd (snd (create_transaction self orderful_type message sender_isa_id receiver_isa_id w))) = sent w @
      [\<lparr>rverb = POST, rurl = ''https://api.orderful.com/v3/transactions'',
       rparams = None,
       rjson = Some (PDict [(''type'', PDict [(''name'', orderful_type)]), (''stream'', stream self),
                     (''message'', message), (''sender'', PDict [(''isaId'', sender_isa_id)]),
                     (''receiver'', PDict [(''isaId'', receiver_isa_id)])]),
       rheaders = None, rsession_headers = headers (client self),
       rcookies = cookies (client self)\<rparr>]"
    by (simp only: create_transaction_outgoing)
  have forward: "fst (create_transaction self orderful_type message sender_isa_id receiver_isa_id w) = Inr v"
    if nofail: "\<not> (400 \<le> status_code (server w (sent w) (outgoing (create_transaction self orderful_type message sender_isa_id receiver_isa_id w))) \<and> status_code (server w (sent w) (outgoing (create_transaction self orderful_type message sender_isa_id receiver_isa_id w))) < 600)"
      and body: "json_loads w (content (server w (sent w) (outgoing (create_transaction self orderful_type message sender_isa_id receiver_isa_id w)))) = Some (PDict d)"
      and key: "map_of d ''id'' = Some v"
    using create_transaction_result [OF nofail] body key
    by (simp add: subscript_dict)
  have backward: "\<not> (400 \<le> status_code (server w (sent w) (outgoing (create_transaction self orderful_type message sender_isa_id receiver_isa_id w))) \<and> status_code (server w (sent w) (outgoing (create_transaction self orderful_type message sender_isa_id receiver_isa_id w))) < 600)
        \<and> (\<exists>d'. json_loads w (content (server w (sent w) (outgoing (create_transaction self orderful_type message sender_isa_id receiver_isa_id w)))) = Some (PDict d') \<and> map_of d' ''id'' = Some v')"
    if ret: "fst (create_transaction self orderful_type message sender_isa_id receiver_isa_id w) = Inr v'"
  proof -
    have nofail: "\<not> (400 \<le> status_code (server w (sent w) (outgoing (create_transaction self orderful_type message sender_isa_id receiver_isa_id w))) \<and> status_code (server w (sent w) (outgoing (create_transaction self orderful_type message sender_isa_id receiver_isa_id w))) < 600)"
    proof
      assume "400 \<le> status_code (server w (sent w) (outgoing (create_transaction self orderful_type message sender_isa_id receiver_isa_id w))) \<and> status_code (server w (sent w) (outgoing (create_transaction self orderful_type message sender_isa_id receiver_isa_id w))) < 600"
      then have "fst (create_transaction self orderful_type message sender_isa_id receiver_isa_id w) = Inl (HTTPError (server w (sent w) (outgoing (create_transaction self orderful_type message sender_isa_id receiver_isa_id w))))"
        by (intro create_transaction_failure) simp_all
      with ret show False by simp
    qed
    from create_transaction_result [OF nofail] ret
    have "(case json_loads w (content (server w (sent w) (outgoing (create_transaction self orderful_type message sender_isa_id receiver_isa_id w)))) of
             None \<Rightarrow> Inl JSONDecodeError | Some data \<Rightarrow> subscript data ''id'') = Inr v'"
      by simp
    then obtain data where "json_loads w (content (server w (sent w) (outgoing (create_transaction self orderful_type message sender_isa_id receiver_isa_id w)))) = Some data"
        and "subscript data ''id'' = Inr v'"
      by (auto split: option.splits)
    then have "\<exists>d'. json_loads w (content (server w (sent w) (outgoing (create_transaction self orderful_type message sender_isa_id receiver_isa_id w)))) = Some (PDict d') \<and> map_of d' ''id'' = Some v'"
      using subscript_Inr by blast
    with nofail show ?thesis by (rule conjI)
  qed
  from req forward backward show ?thesis
    by blast
qed

theorem create_transaction_posts_and_returns_id_witness:
  "fst (create_transaction demo_client (PStr ''850_PURCHASE_ORDER'') (PDict [(''po'', PInt 1)])
          (PStr ''SENDER'') (PStr ''RECEIVER'') (demo_world 201 body_tx)) = Inr (PStr ''tx_123'')
   \<and> sent (snd (snd (create_transaction demo_client (PStr ''850_PURCHASE_ORDER'') (PDict [(''po'', PInt 1)])
          (PStr ''SENDER'') (PStr ''RECEIVER'') (demo_world 201 body_tx)))) =
       [\<lparr>rverb = POST, rurl = ''https://api.orderful.com/v3/transactions'', rparams = None,
          rjson = Some (PDict [(''type'', PDict [(''name'', PStr ''850_PURCHASE_ORDER'')]),
                   (''stream'', PStr ''TEST''), (''message'', PDict [(''po'', PInt 1)]),
                   (''sender'', PDict [(''isaId'', PStr ''SENDER'')]),
                   (''receiver'', PDict [(''isaId'', PStr ''RECEIVER'')])]),
          rheaders = None, rsession_headers = headers (client demo_client), rcookies = []\<rparr>]"
  using create_transaction_posts_and_returns_id
          [where self = demo_client and w = "demo_world 201 body_tx"
             and d = "[(''id'', PStr ''tx_123'')]" and v = "PStr ''tx_123''" and v' = "PStr ''tx_123''"
             and orderful_type = "PStr ''850_PURCHASE_ORDER''" and message = "PDict [(''po'', PInt 1)]"
             and sender_isa_id = "PStr ''SENDER''" and receiver_isa_id = "PStr ''RECEIVER''"]
  by (simp add: demo_world_def demo_loads_def demo_client_def init_def Let_def)

section \<open>Listing transactions\<close>

text \<open>
  Claim C5: when the response to \<open>list_transactions\<close> has no failure status and its body
  is a JSON object with the keys \<open>metadata\<close> and \<open>data\<close>, the call returns the pair of
  the two entries.
\<close>

theorem list_transactions_returns_pair:
  assumes "\<not> (400 \<le> status_code (server w (sent w) (outgoing (list_transactions self prev_cursor next_cursor created_at business_numbers transaction_type validation_status delivery_status acknowledgment_status sender_isa_id receiver_isa_id reference_identifier sender_interchange_reference_identifier sender_group_reference_identifier sender_transaction_reference_identifier receiver_interchange_reference_identifier receiver_group_reference_identifier receiver_transaction_reference_identifier w))) \<and> status_code (server w (sent w) (outgoing (list_transactions self prev_cursor next_cursor created_at business_numbers transaction_type validation_status delivery_status acknowledgment_status sender_isa_id receiver_isa_id reference_identifier sender_interchange_reference_identifier sender_group_reference_identifier sender_transaction_reference_identifier receiver_interchange_reference_identifier receiver_group_reference_identifier receiver_transaction_reference_identifier w))) < 600)"
    and "json_loads w (content (server w (sent w) (outgoing (list_transactions self prev_cursor next_cursor created_at business_numbers transaction_type validation_status delivery_status acknowledgment_status sender_isa_id receiver_isa_id reference_identifier sender_interchange_reference_identifier sender_group_reference_identifier sender_transaction_reference_identifier receiver_interchange_reference_identifier receiver_group_reference_identifier receiver_transaction_reference_identifier w)))) = Some (PDict d)"
    and "map_of d ''metadata'' = Some metadata"
    and "map_of d ''data'' = Some transactions"
  shows "fst (list_transactions self prev_cursor next_cursor created_at business_numbers transaction_type validation_status delivery_status acknowledgment_status sender_isa_id receiver_isa_id reference_identifier sender_interchange_reference_identifier sender_group_reference_identifier sender_transaction_reference_identifier receiver_interchange_reference_identifier receiver_group_reference_identifier receiver_transaction_reference_identifier w) = Inr (PTuple [metadata, transactions])"
  using list_transactions_result [OF assms(1)] assms(2-4)
  by (simp add: subscript_dict)

theorem list_transactions_returns_pair_witness:
  "fst (list_transactions demo_client (PBool False) (PBool False) (PBool False) (PBool False) (PBool False) (PBool False) (PBool False) (PBool False) (PBool False) (PBool False) (PBool False) (PBool False) (PBool False) (PBool False) (PBool False) (PBool False) (PBool False) (demo_world 200 body_page))
     = Inr (PTuple [PDict [], PList []])"
  using list_transactions_returns_pair
          [where self = demo_client and w = "demo_world 200 body_page"
             and d = "[(''metadata'', PDict []), (''data'', PList [])]"
             and metadata = "PDict []" and transactions = "PList []"
             and prev_cursor = "PBool False" and next_cursor = "PBool False" and created_at = "PBool False" and business_numbers = "PBool False" and transaction_type = "PBool False" and validation_status = "PBool False" and delivery_status = "PBool False" and acknowledgment_status = "PBool False" and sender_isa_id = "PBool False" and receiver_isa_id = "PBool False" and reference_identifier = "PBool False" and sender_interchange_reference_identifier = "PBool False" and sender_group_reference_identifier = "PBool False" and sender_transaction_reference_identifier = "PBool False" and receiver_interchange_reference_identifier = "PBool False" and receiver_group_reference_identifier = "PBool False" and receiver_transaction_reference_identifier = "PBool False"]
  by (simp add: demo_world_def demo_loads_def body_page_def body_tx_def)

section \<open>Attachment content\<close>

text \<open>
  Claim C7: when the response has no failure status, \<open>get_attachment_content\<close> returns
  the bytes of the response as they are; the JSON decoder has no part in the result.
\<close>

theorem get_attachment_content_returns_raw_bytes:
  assumes "\<not> (400 \<le> status_code (server w (sent w) (outgoing (get_attachment_content self attachment_id w))) \<and> status_code (server w (sent w) (outgoing (get_attachment_content self attachment_id w))) < 600)"
  shows "fst (get_attachment_content self attachment_id w) = Inr (PBytes (content (server w (sent w) (outgoing (get_attachment_content self attachment_id w)))))
       \<and> fst (get_attachment_content self attachment_id (w\<lparr>json_loads := l\<rparr>))
           = Inr (PBytes (content (server w (sent w) (outgoing (get_attachment_content self attachment_id w)))))"
proof -
  have o: "outgoing (get_attachment_content self attachment_id (w\<lparr>json_loads := l\<rparr>))
             = outgoing (get_attachment_content self attachment_id w)"
    by (simp only: get_attachment_content_outgoing)
  have "fst (get_attachment_content self attachment_id (w\<lparr>json_loads := l\<rparr>))
          = Inr (PBytes (content (server (w\<lparr>json_loads := l\<rparr>) (sent (w\<lparr>json_loads := l\<rparr>))
                  (outgoing (get_attachment_content self attachment_id (w\<lparr>json_loads := l\<rparr>))))))"
    using assms by (intro get_attachment_content_result) (simp add: o)
  then have "fst (get_attachment_content self attachment_id (w\<lparr>json_loads := l\<rparr>))
          = Inr (PBytes (content (server w (sent w) (outgoing (get_attachment_content self attachment_id w)))))"
    by (simp add: o)
  with get_attachment_content_result [OF assms] show ?thesis by (intro conjI)
qed

theorem get_attachment_content_returns_raw_bytes_witness:
  "fst (get_attachment_content demo_client ''att_1'' (demo_world 200 [0xFF, 0xD8, 0x00, 0x7B]))
     = Inr (PBytes [0xFF, 0xD8, 0x00, 0x7B])"
  using get_attachment_content_returns_raw_bytes
          [where self = demo_client and attachment_id = "''att_1''"
             and w = "demo_world 200 [0xFF, 0xD8, 0x00, 0x7B]" and l = "\<lambda>b. None"]
  by (simp add: demo_world_def)

section \<open>The configuration of the client\<close>

text \<open>
  Claim C8, as the specification states it: an operation carries no state from one call
  to the next beyond the stream, the api key and the default headers. The session of the
  client keeps the cookies of every response and sends them with the requests that
  follow: after one call to a service that sets a cookie, the client is not the client
  it was, and the same call goes out with the cookie where before it went out with none.
\<close>

theorem session_cookies_counterexample:
  "rcookies (outgoing (perform demo_client Get_organization_details cookie_world)) = []
   \<and> rcookies (outgoing (perform
           (fst (snd (perform demo_client Get_organization_details cookie_world)))
           Get_organization_details
           (snd (snd (perform demo_client Get_organization_details cookie_world)))))
       = [(''session'', ''abc123'')]
   \<and> fst (snd (perform demo_client Get_organization_details cookie_world)) \<noteq> demo_client"
  by (simp add: get_organization_details_def get_base_url_def session_request_def outgoing_def
        raise_for_status_def cookie_world_def demo_client_def init_def Let_def split: sum.splits)

text \<open>
  Claim C8, amended: every operation leaves the stream, the api key, the header set and
  the default headers of the session unchanged, after a call that returns as after one
  that raises, and so after any sequence of calls. The one part of the client that a
  call changes is the cookie jar of the session, which takes the cookies of the response;
  the request of a call goes out under the default headers and the cookies of the client
  and does not depend on the world. The call leaves the service and the decoder alone.
\<close>

theorem operations_leave_configuration_unchanged:
  "stream (fst (snd (perform self c w))) = stream self
   \<and> orderful_api_key (fst (snd (perform self c w))) = orderful_api_key self
   \<and> api_headers (fst (snd (perform self c w))) = api_headers self
   \<and> headers (client (fst (snd (perform self c w)))) = headers (client self)
   \<and> fst (snd (perform self c w)) =
       self\<lparr>client := (client self)\<lparr>cookies :=
         extract_cookies_to_jar (cookies (client self))
           (set_cookies (server w (sent w) (outgoing (perform self c w))))\<rparr>\<rparr>
   \<and> rsession_headers (outgoing (perform self c w)) = headers (client self)
   \<and> rcookies (outgoing (perform self c w)) = cookies (client self)
   \<and> outgoing (perform self c w) = outgoing (perform self c w')
   \<and> server (snd (snd (perform self c w))) = server w
   \<and> json_loads (snd (snd (perform self c w))) = json_loads w
   \<and> stream (fst (perform_all self cs w)) = stream self
   \<and> orderful_api_key (fst (perform_all self cs w)) = orderful_api_key self
   \<and> api_headers (fst (perform_all self cs w)) = api_headers self
   \<and> headers (client (fst (perform_all self cs w))) = headers (client self)"
proof -
  have a: "fst (snd (perform self c w)) =
       self\<lparr>client := (client self)\<lparr>cookies :=
         extract_cookies_to_jar (cookies (client self))
           (set_cookies (server w (sent w) (outgoing (perform self c w))))\<rparr>\<rparr>"
    by (simp add: perform_state)
  have b: "server (snd (snd (perform self c w))) = server w"
    by (simp add: perform_state)
  have d: "json_loads (snd (snd (perform self c w))) = json_loads w"
    by (simp add: perform_state)
  have e: "outgoing (perform self c w) = outgoing (perform self c w')"
    by (rule perform_outgoing_indep)
  from perform_config [of self c w] a perform_session_headers [of self c w] e b d
    perform_all_config [of self cs w]
  show ?thesis
    by (intro conjI) simp_all
qed

theorem operations_leave_configuration_unchanged_witness:
  "stream (fst (snd (perform demo_client Get_organization_details cookie_world))) = PStr ''TEST''
   \<and> orderful_api_key (fst (snd (perform demo_client Get_organization_details cookie_world)))
       = PStr ''secret''
   \<and> cookies (client (fst (snd (perform demo_client Get_organization_details cookie_world))))
       = [(''session'', ''abc123'')]"
proof -
  have r: "set_cookies (server cookie_world (sent cookie_world)
             (outgoing (perform demo_client Get_organization_details cookie_world)))
           = [(''session'', ''abc123'')]"
    by (simp add: cookie_world_def)
  have c0: "cookies (client demo_client) = []"
    by (simp add: demo_client_def init_def Let_def)
  have s0: "stream demo_client = PStr ''TEST''"
    by (simp add: demo_client_def init_def Let_def)
  have k0: "orderful_api_key demo_client = PStr ''secret''"
    by (simp add: demo_client_def init_def Let_def)
  from operations_leave_configuration_unchanged
         [where self = demo_client and c = Get_organization_details and w = cookie_world
            and w' = cookie_world and cs = "[]"]
  have a1: "stream (fst (snd (perform demo_client Get_organization_details cookie_world)))
           = stream demo_client"
    and a2: "orderful_api_key (fst (snd (perform demo_client Get_organization_details cookie_world)))
           = orderful_api_key demo_client"
    and a3: "fst (snd (perform demo_client Get_organization_details cookie_world)) =
           demo_client\<lparr>client := (client demo_client)\<lparr>cookies :=
             extract_cookies_to_jar (cookies (client demo_client))
               (set_cookies (server cookie_world (sent cookie_world)
                  (outgoing (perform demo_client Get_organization_details cookie_world))))\<rparr>\<rparr>"
    by blast+
  have "cookies (client (fst (snd (perform demo_client Get_organization_details cookie_world))))
          = extract_cookies_to_jar (cookies (client demo_client))
               (set_cookies (server cookie_world (sent cookie_world)
                  (outgoing (perform demo_client Get_organization_details cookie_world))))"
    by (subst a3) simp
  then have a4: "cookies (client (fst (snd (perform demo_client Get_organization_details cookie_world))))
          = [(''session'', ''abc123'')]"
    by (simp only: r c0 extract_cookies_to_jar.simps AList.update.simps)
  from a1 a2 a4 s0 k0 show ?thesis
    by simp
qed

section \<open>Missing keys in the response\<close>



section \<open>Generating a label\<close>

text \<open>
  Claim C10: the JSON body of \<open>generate_label\<close> is the dictionary of the keyword
  arguments itself: every keyword supplied is in the body with exactly its value, truthy
  or not, and nothing is filtered out.
\<close>

theorem generate_label_sends_every_keyword:
  "rjson (outgoing (generate_label self label_type kwargs w)) = Some (PDict kwargs)
   \<and> body_key k (outgoing (generate_label self label_type kwargs w)) = map_of kwargs k
   \<and> rverb (outgoing (generate_label self label_type kwargs w)) = POST
   \<and> rurl (outgoing (generate_label self label_type kwargs w))
       = ''https://api.orderful.com/v3/labels/'' @ label_type"
  by (simp add: generate_label_outgoing body_key_def)

theorem generate_label_sends_every_keyword_witness:
  "\<not> truthy (PInt 0)
   \<and> body_key ''copies''
       (outgoing (generate_label demo_client ''sscc18'' [(''copies'', PInt 0), (''note'', PStr [])]
          (demo_world 200 body_empty))) = Some (PInt 0)
   \<and> body_key ''note''
       (outgoing (generate_label demo_client ''sscc18'' [(''copies'', PInt 0), (''note'', PStr [])]
          (demo_world 200 body_empty))) = Some (PStr [])"
  using generate_label_sends_every_keyword
          [where self = demo_client and label_type = "''sscc18''"
             and kwargs = "[(''copies'', PInt 0), (''note'', PStr [])]"
             and w = "demo_world 200 body_empty" and k = "''copies''"]
        generate_label_sends_every_keyword
          [where self = demo_client and label_type = "''sscc18''"
             and kwargs = "[(''copies'', PInt 0), (''note'', PStr [])]"
             and w = "demo_world 200 body_empty" and k = "''note''"]
  by simp

end
